theory Spec2Isabelle
  imports Main "HOL-Library.Word"
begin

section \<open>JavaScript strings\<close>

text \<open>
  A JavaScript string is a sequence of 16-bit code units. Literals of the program are
  ASCII, so they are written as Isabelle strings and converted by \<open>utf16\<close>.
\<close>

type_synonym code_unit = "16 word"
type_synonym js_string = "code_unit list"

definition utf16 :: "string \<Rightarrow> js_string" where
  "utf16 s = map of_char s"

definition LF :: code_unit where
  "LF = 0x000A"

definition QUOTE :: code_unit where
  "QUOTE = 0x0022"

definition BACKSLASH :: code_unit where
  "BACKSLASH = 0x005C"

text \<open>
  \<open>String.prototype.trim\<close> removes the code units of ECMAScript's WhiteSpace and
  LineTerminator productions from both ends of the string.
\<close>

definition is_white_space :: "code_unit \<Rightarrow> bool" where
  "is_white_space c \<longleftrightarrow> c \<in> set [0x0009, 0x000A, 0x000B, 0x000C, 0x000D, 0x0020, 0x00A0,
      0x1680, 0x2000, 0x2001, 0x2002, 0x2003, 0x2004, 0x2005, 0x2006, 0x2007, 0x2008, 0x2009,
      0x200A, 0x2028, 0x2029, 0x202F, 0x205F, 0x3000, 0xFEFF]"

definition trim :: "js_string \<Rightarrow> js_string" where
  "trim s = rev (dropWhile is_white_space (rev (dropWhile is_white_space s)))"

text \<open>\<open>String.prototype.trimEnd\<close>, which the program does not call; it is what
  "right-trimmed" denotes.\<close>

definition trimEnd :: "js_string \<Rightarrow> js_string" where
  "trimEnd s = rev (dropWhile is_white_space (rev s))"

text \<open>\<open>comment.replace(/"/g, '\\"')\<close>: the scan goes left to right and every match of
  the one-character pattern is replaced by a backslash and a double quote.\<close>

fun replace_quotes :: "js_string \<Rightarrow> js_string" where
  "replace_quotes [] = []"
| "replace_quotes (c # cs) =
     (if c = QUOTE then BACKSLASH # QUOTE # replace_quotes cs else c # replace_quotes cs)"

text \<open>\<open>Array.prototype.join\<close> on an array of strings.\<close>

fun join :: "js_string \<Rightarrow> js_string list \<Rightarrow> js_string" where
  "join sep [] = []"
| "join sep [x] = x"
| "join sep (x # y # ys) = x @ sep @ join sep (y # ys)"

text \<open>\<open>output.split("\n")[0]\<close>: the text before the first line feed; \<open>split\<close> never
  returns an empty array, so the index is always in range.\<close>

definition first_line :: "js_string \<Rightarrow> js_string" where
  "first_line s = takeWhile (\<lambda>c. c \<noteq> LF) s"

text \<open>The text a template literal gives for an exit code: a number in decimal, or
  \<open>null\<close> when the process was ended by a signal.\<close>

fun decimal_digits :: "nat \<Rightarrow> js_string" where
  "decimal_digits n =
     (if n < 10 then [of_nat (48 + n)]
      else decimal_digits (n div 10) @ [of_nat (48 + n mod 10)])"

declare decimal_digits.simps [simp del]

definition code_text :: "int option \<Rightarrow> js_string" where
  "code_text code =
     (case code of
        None \<Rightarrow> utf16 ''null''
      | Some n \<Rightarrow> if n < 0 then utf16 ''-'' @ decimal_digits (nat (- n)) else decimal_digits (nat n))"

text \<open>Truthiness of an optional string parameter (\<open>undefined\<close> and \<open>""\<close> are falsy) and of
  an optional boolean parameter (\<open>undefined\<close> and \<open>false\<close> are falsy).\<close>

definition truthy_string :: "js_string option \<Rightarrow> js_string option" where
  "truthy_string v = (case v of None \<Rightarrow> None | Some s \<Rightarrow> if s = [] then None else Some s)"

definition truthy_bool :: "bool option \<Rightarrow> bool" where
  "truthy_bool v = (case v of None \<Rightarrow> False | Some b \<Rightarrow> b)"


section \<open>Child processes and promises\<close>

text \<open>
  What a process that runs does, as the listeners of \<open>executeClearToolCommand\<close> see it:
  the chunks its two streams deliver (already decoded by \<open>data.toString()\<close>), the code of
  its \<open>close\<close> event (\<open>None\<close> is \<open>null\<close>), and the position of that event in the order in
  which the event loop delivers the \<open>close\<close> events.
\<close>

record child_process =
  stdout_data :: "js_string list"
  stderr_data :: "js_string list"
  close_code :: "int option"
  close_time :: nat

text \<open>
  The three ways a call of \<open>spawn(command, args)\<close> can go:
  \<^item> \<open>spawn\<close> throws at once (an argument that holds a NUL makes it throw a
    \<open>TypeError\<close>), and there is no process;
  \<^item> the process cannot be launched (the command is not found, say) and the child emits
    \<open>error\<close>, with the message \<open>spawn <command> ENOENT\<close> or the like, and not \<open>close\<close>;
  \<^item> the process runs and reaches its \<open>close\<close> event.
\<close>

datatype spawn_outcome =
    Spawn_throws js_string
  | Emits_error js_string
  | Runs child_process

text \<open>The operating system: how the \<open>n\<close>-th call of \<open>spawn\<close> goes, given its command and
  argument vector.\<close>

type_synonym os = "nat \<Rightarrow> js_string \<Rightarrow> js_string list \<Rightarrow> spawn_outcome"

text \<open>The calls of \<open>spawn\<close> so far, in order.\<close>

type_synonym spawn_log = "(js_string \<times> js_string list) list"

text \<open>
  How a computation can fail. \<open>Thrown\<close> is an \<open>Error\<close> of that message, thrown or the
  reason of a rejected promise: a \<open>catch\<close> block receives it. \<open>Unhandled\<close> is an \<open>error\<close>
  event emitted by an object on which no listener for \<open>error\<close> is registered: the emitter
  throws it from the event loop, where no \<open>catch\<close> block of the program is on the stack,
  and the uncaught exception ends the server process. The model does not follow an
  invocation beyond that point.
\<close>

datatype fault = Thrown js_string | Unhandled js_string

text \<open>A promise: when it settles, and how (\<open>Inr\<close> is a fulfilment). Time \<open>0\<close> is the call
  that creates the promise; a \<open>close\<close> event at position \<open>t\<close> is time \<open>Suc t\<close>.\<close>

type_synonym 'a promise = "nat \<times> (fault + 'a)"

text \<open>\<open>output += data.toString()\<close> for every chunk, starting from \<open>""\<close>.\<close>

definition accumulate :: "js_string list \<Rightarrow> js_string" where
  "accumulate chunks = foldl (\<lambda>acc data. acc @ data) [] chunks"

text \<open>The \<open>close\<close> listener.\<close>

definition on_close :: "child_process \<Rightarrow> fault + js_string" where
  "on_close process =
     (let output = accumulate (stdout_data process);
          error = accumulate (stderr_data process);
          code = close_code process
      in if code = Some 0 then Inr (trim output)
         else Inl (Thrown (if trim error \<noteq> [] then trim error
                           else utf16 ''Process exited with code '' @ code_text code)))"

text \<open>
  The executor of the promise of \<open>executeClearToolCommand\<close>, for each way the spawn can
  go. An exception of \<open>spawn\<close> inside the executor rejects the promise. The executor
  registers listeners for \<open>data\<close> on the two streams and for \<open>close\<close> on the process, and
  none for \<open>error\<close>: an \<open>error\<close> event of the child is unhandled.
\<close>

definition executor :: "spawn_outcome \<Rightarrow> js_string promise" where
  "executor outcome =
     (case outcome of
        Spawn_throws message \<Rightarrow> (0, Inl (Thrown message))
      | Emits_error message \<Rightarrow> (0, Inl (Unhandled message))
      | Runs process \<Rightarrow> (Suc (close_time process), on_close process))"

text \<open>\<open>executeClearToolCommand\<close>: \<open>spawn\<close> is called when the function is called. The
  line the function writes with \<open>console.log\<close> is left out.\<close>

definition executeClearToolCommand ::
  "os \<Rightarrow> js_string \<Rightarrow> js_string list \<Rightarrow> spawn_log \<Rightarrow> js_string promise \<times> spawn_log" where
  "executeClearToolCommand os command args log =
     (executor (os (length log) command args), log @ [(command, args)])"

text \<open>An async function body: it runs from a spawn log, ends by returning (\<open>Inr\<close>) or by
  a fault (\<open>Inl\<close>), and leaves the spawn log extended by the calls of \<open>spawn\<close> it made.\<close>

type_synonym 'a async = "spawn_log \<Rightarrow> (fault + 'a) \<times> spawn_log"

definition return_async :: "'a \<Rightarrow> 'a async" where
  "return_async v log = (Inr v, log)"

definition throw_async :: "js_string \<Rightarrow> 'a async" where
  "throw_async message log = (Inl (Thrown message), log)"

definition bind_async :: "'a async \<Rightarrow> ('a \<Rightarrow> 'b async) \<Rightarrow> 'b async" where
  "bind_async m f log =
     (case m log of
        (Inl failure, log') \<Rightarrow> (Inl failure, log')
      | (Inr v, log') \<Rightarrow> f v log')"

text \<open>\<open>try { body } catch (error) { handler(error.message) }\<close>.\<close>

definition try_catch :: "'a async \<Rightarrow> (js_string \<Rightarrow> 'a async) \<Rightarrow> 'a async" where
  "try_catch body handler log =
     (case body log of
        (Inl (Thrown message), log') \<Rightarrow> handler message log'
      | (Inl (Unhandled message), log') \<Rightarrow> (Inl (Unhandled message), log')
      | (Inr v, log') \<Rightarrow> (Inr v, log'))"

text \<open>\<open>await executeClearToolCommand(command, args)\<close>.\<close>

definition await_command :: "os \<Rightarrow> js_string \<Rightarrow> js_string list \<Rightarrow> js_string async" where
  "await_command os command args log =
     (let (promise, log') = executeClearToolCommand os command args log
      in (snd promise, log'))"

text \<open>\<open>resourcePaths.map((path) => executeClearToolCommand("cleartool", args path))\<close>:
  the executor of each promise runs at once, so \<open>spawn\<close> is called for every path, in the
  order of the paths, before anything is awaited.\<close>

fun map_execute ::
  "os \<Rightarrow> js_string \<Rightarrow> (js_string \<Rightarrow> js_string list) \<Rightarrow> js_string list \<Rightarrow> spawn_log
     \<Rightarrow> js_string promise list \<times> spawn_log" where
  "map_execute os command args [] log = ([], log)"
| "map_execute os command args (path # paths) log =
     (let (promise, log1) = executeClearToolCommand os command (args path) log;
          (promises, log2) = map_execute os command args paths log1
      in (promise # promises, log2))"

text \<open>\<open>Promise.all\<close>: rejected with the reason of the promise that rejects first in time
  (the earlier element when two times are equal), otherwise fulfilled with the values in
  the order of the array. An unhandled \<open>error\<close> event among the children, the first in
  the order of the spawns, ends the server before any process closes.\<close>

fun first_unhandled :: "'a promise list \<Rightarrow> js_string option" where
  "first_unhandled [] = None"
| "first_unhandled ((t, Inl (Unhandled message)) # promises) = Some message"
| "first_unhandled ((t, Inl (Thrown message)) # promises) = first_unhandled promises"
| "first_unhandled ((t, Inr v) # promises) = first_unhandled promises"

fun first_rejection :: "'a promise list \<Rightarrow> (nat \<times> js_string) option" where
  "first_rejection [] = None"
| "first_rejection ((t, Inr v) # promises) = first_rejection promises"
| "first_rejection ((t, Inl (Unhandled message)) # promises) = first_rejection promises"
| "first_rejection ((t, Inl (Thrown message)) # promises) =
     (case first_rejection promises of
        None \<Rightarrow> Some (t, message)
      | Some (t', message') \<Rightarrow> if t' < t then Some (t', message') else Some (t, message))"

fun fulfilled_values :: "'a promise list \<Rightarrow> 'a list" where
  "fulfilled_values [] = []"
| "fulfilled_values ((t, Inr v) # promises) = v # fulfilled_values promises"
| "fulfilled_values ((t, Inl failure) # promises) = fulfilled_values promises"

definition promise_all :: "'a promise list \<Rightarrow> fault + 'a list" where
  "promise_all promises =
     (case first_unhandled promises of
        Some message \<Rightarrow> Inl (Unhandled message)
      | None \<Rightarrow>
          (case first_rejection promises of
             Some (t, message) \<Rightarrow> Inl (Thrown message)
           | None \<Rightarrow> Inr (fulfilled_values promises)))"

text \<open>\<open>await Promise.all(resourcePaths.map(...))\<close>.\<close>

definition await_all ::
  "os \<Rightarrow> js_string \<Rightarrow> (js_string \<Rightarrow> js_string list) \<Rightarrow> js_string list \<Rightarrow> js_string list async" where
  "await_all os command args paths log =
     (let (promises, log') = map_execute os command args paths log
      in (promise_all promises, log'))"


section \<open>Responses\<close>

datatype content_block = Text js_string

datatype response = Response (content: "content_block list")

definition text_response :: "js_string \<Rightarrow> response" where
  "text_response t = Response [Text t]"

definition cleartool :: js_string where
  "cleartool = utf16 ''cleartool''"


section \<open>The operation handlers\<close>

text \<open>Each handler is the async function registered with \<open>server.tool\<close>: a \<open>try\<close> block
  and the \<open>catch\<close> block that turns the error's message into a response.\<close>

definition get_clearcase_views :: "os \<Rightarrow> response async" where
  "get_clearcase_views os =
     try_catch
       (bind_async (await_command os cleartool [utf16 ''lsview''])
          (\<lambda>output. return_async (text_response (utf16 ''Views:'' @ [LF] @ output))))
       (\<lambda>message. return_async (text_response (utf16 ''Error retrieving views: '' @ message)))"

definition get_resource_status :: "os \<Rightarrow> js_string \<Rightarrow> response async" where
  "get_resource_status os resourcePath =
     try_catch
       (bind_async (await_command os cleartool [utf16 ''describe'', resourcePath])
          (\<lambda>output. return_async (text_response (utf16 ''Resource status:'' @ [LF] @ output))))
       (\<lambda>message. return_async
          (text_response (utf16 ''Error retrieving resource status: '' @ message)))"

definition create_or_set_ucm_activity ::
  "os \<Rightarrow> js_string option \<Rightarrow> js_string option \<Rightarrow> bool \<Rightarrow> response async" where
  "create_or_set_ucm_activity os activityId activityHeadline setActivity =
     try_catch
       (case truthy_string activityId of
          Some ident \<Rightarrow>
            bind_async (await_command os cleartool [utf16 ''setactivity'', ident])
              (\<lambda>_. return_async
                 (text_response (utf16 ''Activity '' @ ident @ utf16 '' set successfully.'')))
        | None \<Rightarrow>
            (case truthy_string activityHeadline of
               Some headline \<Rightarrow>
                 bind_async
                   (await_command os cleartool [utf16 ''mkactivity'', utf16 ''-headline'', headline])
                   (\<lambda>output.
                      bind_async
                        (if setActivity
                         then bind_async
                                (await_command os cleartool
                                   [utf16 ''setactivity'', first_line output])
                                (\<lambda>_. return_async ())
                         else return_async ())
                        (\<lambda>_. return_async
                           (text_response
                              (utf16 ''Activity created successfully:'' @ [LF] @ output))))
             | None \<Rightarrow>
                 throw_async (utf16 ''Either activityId or activityHeadline must be provided.'')))
       (\<lambda>message. return_async
          (text_response (utf16 ''Error creating or setting activity: '' @ message)))"

definition checkout_resources ::
  "os \<Rightarrow> js_string list \<Rightarrow> js_string option \<Rightarrow> response async" where
  "checkout_resources os resourcePaths comment =
     try_catch
       (let commentArg =
              (case truthy_string comment of
                 Some c \<Rightarrow> replace_quotes c
               | None \<Rightarrow> utf16 ''automated checkout'')
        in bind_async
             (await_all os cleartool
                (\<lambda>path. [utf16 ''checkout'', utf16 ''-c'', commentArg, path]) resourcePaths)
             (\<lambda>results. return_async
                (text_response (utf16 ''Checkout results:'' @ [LF] @ join [LF] results))))
       (\<lambda>message. return_async
          (text_response (utf16 ''Error checking out resources: '' @ message)))"

definition undo_checkout :: "os \<Rightarrow> js_string list \<Rightarrow> bool option \<Rightarrow> response async" where
  "undo_checkout os resourcePaths keepChanges =
     try_catch
       (bind_async
          (await_all os cleartool
             (\<lambda>path. [utf16 ''uncheckout'',
                       if truthy_bool keepChanges then utf16 ''-keep'' else utf16 ''-rm'', path])
             resourcePaths)
          (\<lambda>results. return_async
             (text_response (utf16 ''Undo checkout results:'' @ [LF] @ join [LF] results))))
       (\<lambda>message. return_async (text_response (utf16 ''Error undoing checkout: '' @ message)))"

definition checkin_resources ::
  "os \<Rightarrow> js_string list \<Rightarrow> js_string option \<Rightarrow> bool option \<Rightarrow> response async" where
  "checkin_resources os resourcePaths comment checkinIdentical =
     try_catch
       (let commentArg =
              (case truthy_string comment of
                 Some c \<Rightarrow> replace_quotes c
               | None \<Rightarrow> utf16 ''automated checkin'');
            args0 = [utf16 ''checkin''];
            args1 = (if truthy_bool checkinIdentical then args0 @ [utf16 ''-identical''] else args0);
            args = args1 @ [utf16 ''-c'', commentArg]
        in bind_async
             (await_all os cleartool (\<lambda>path. args @ [path]) resourcePaths)
             (\<lambda>results. return_async
                (text_response (utf16 ''Check-in results:'' @ [LF] @ join [LF] results))))
       (\<lambda>message. return_async
          (text_response (utf16 ''Error checking in resources: '' @ message)))"

definition login :: "os \<Rightarrow> js_string \<Rightarrow> js_string \<Rightarrow> js_string \<Rightarrow> response async" where
  "login os wanServer username password =
     try_catch
       (bind_async
          (await_command os cleartool
             [utf16 ''login'', utf16 ''-server'', wanServer, utf16 ''-user'', username,
              utf16 ''-password'', password])
          (\<lambda>output. return_async (text_response (utf16 ''Login successful:'' @ [LF] @ output))))
       (\<lambda>message. return_async (text_response (utf16 ''Error during login: '' @ message)))"

definition logout :: "os \<Rightarrow> response async" where
  "logout os =
     try_catch
       (bind_async (await_command os cleartool [utf16 ''logout''])
          (\<lambda>output. return_async (text_response (utf16 ''Logout successful:'' @ [LF] @ output))))
       (\<lambda>message. return_async (text_response (utf16 ''Error during logout: '' @ message)))"

definition add_view :: "os \<Rightarrow> js_string \<Rightarrow> response async" where
  "add_view os viewPath =
     try_catch
       (bind_async (await_command os cleartool [utf16 ''mkview'', viewPath])
          (\<lambda>output. return_async
             (text_response (utf16 ''View added successfully:'' @ [LF] @ output))))
       (\<lambda>message. return_async (text_response (utf16 ''Error adding view: '' @ message)))"

definition update_view :: "os \<Rightarrow> js_string \<Rightarrow> response async" where
  "update_view os viewPath =
     try_catch
       (bind_async (await_command os cleartool [utf16 ''setcs'', utf16 ''-current'', viewPath])
          (\<lambda>output. return_async
             (text_response (utf16 ''View updated successfully:'' @ [LF] @ output))))
       (\<lambda>message. return_async (text_response (utf16 ''Error updating view: '' @ message)))"

definition add_resources ::
  "os \<Rightarrow> js_string list \<Rightarrow> js_string option \<Rightarrow> response async" where
  "add_resources os resourcePaths comment =
     try_catch
       (let commentArg =
              (case truthy_string comment of
                 Some c \<Rightarrow> replace_quotes c
               | None \<Rightarrow> utf16 ''automated add'')
        in bind_async
             (await_all os cleartool
                (\<lambda>path. [utf16 ''mkelem'', utf16 ''-c'', commentArg, path]) resourcePaths)
             (\<lambda>results. return_async
                (text_response (utf16 ''Add results:'' @ [LF] @ join [LF] results))))
       (\<lambda>message. return_async (text_response (utf16 ''Error adding resources: '' @ message)))"

definition hijack_resources :: "os \<Rightarrow> js_string list \<Rightarrow> response async" where
  "hijack_resources os resourcePaths =
     try_catch
       (bind_async
          (await_all os cleartool (\<lambda>path. [utf16 ''hijack'', path]) resourcePaths)
          (\<lambda>results. return_async
             (text_response (utf16 ''Hijack results:'' @ [LF] @ join [LF] results))))
       (\<lambda>message. return_async (text_response (utf16 ''Error hijacking resources: '' @ message)))"

definition undo_hijack :: "os \<Rightarrow> js_string list \<Rightarrow> response async" where
  "undo_hijack os resourcePaths =
     try_catch
       (bind_async
          (await_all os cleartool (\<lambda>path. [utf16 ''unhijack'', path]) resourcePaths)
          (\<lambda>results. return_async
             (text_response (utf16 ''Undo hijack results:'' @ [LF] @ join [LF] results))))
       (\<lambda>message. return_async (text_response (utf16 ''Error undoing hijack: '' @ message)))"

definition rename_resource :: "os \<Rightarrow> js_string \<Rightarrow> js_string \<Rightarrow> response async" where
  "rename_resource os resourcePath newName =
     try_catch
       (bind_async (await_command os cleartool [utf16 ''mv'', resourcePath, newName])
          (\<lambda>output. return_async
             (text_response (utf16 ''Resource renamed successfully:'' @ [LF] @ output))))
       (\<lambda>message. return_async (text_response (utf16 ''Error renaming resource: '' @ message)))"

definition remove_resource :: "os \<Rightarrow> js_string \<Rightarrow> response async" where
  "remove_resource os resourcePath =
     try_catch
       (bind_async (await_command os cleartool [utf16 ''rmname'', resourcePath])
          (\<lambda>output. return_async
             (text_response (utf16 ''Resource removed successfully:'' @ [LF] @ output))))
       (\<lambda>message. return_async (text_response (utf16 ''Error removing resource: '' @ message)))"

definition open_file :: "os \<Rightarrow> js_string \<Rightarrow> response async" where
  "open_file os filePath =
     try_catch
       (bind_async (await_command os cleartool [utf16 ''describe'', filePath])
          (\<lambda>output. return_async
             (text_response (utf16 ''File opened successfully:'' @ [LF] @ output))))
       (\<lambda>message. return_async (text_response (utf16 ''Error opening file: '' @ message)))"


section \<open>The tool registry\<close>

text \<open>The parameter schemas that occur: \<open>z.string()\<close>, \<open>z.string().optional()\<close>,
  \<open>z.boolean()\<close>, \<open>z.boolean().optional()\<close> and \<open>z.array(z.string())\<close>.\<close>

datatype schema = ZString | ZOptionalString | ZBoolean | ZOptionalBoolean | ZStringArray

record tool =
  tool_name :: string
  description :: string
  parameters :: "(string \<times> schema) list"

text \<open>The \<open>server.tool\<close> calls, in the order of the file.\<close>

definition tool_registry :: "tool list" where
  "tool_registry =
    [\<lparr>tool_name = ''get_clearcase_views'',
      description = ''Retrieve a list of available ClearCase views'',
      parameters = []\<rparr>,
     \<lparr>tool_name = ''get_resource_status'',
      description = ''Retrieve the status of a specific resource'',
      parameters = [(''resourcePath'', ZString)]\<rparr>,
     \<lparr>tool_name = ''create_or_set_ucm_activity'',
      description = ''Create a new UCM activity or set an existing one'',
      parameters = [(''activityId'', ZOptionalString), (''activityHeadline'', ZOptionalString),
                    (''setActivity'', ZBoolean)]\<rparr>,
     \<lparr>tool_name = ''checkout_resources'',
      description = ''Checkout one or more resources for editing'',
      parameters = [(''resourcePaths'', ZStringArray), (''comment'', ZOptionalString)]\<rparr>,
     \<lparr>tool_name = ''undo_checkout'',
      description = ''Undo the checkout of one or more resources'',
      parameters = [(''resourcePaths'', ZStringArray), (''keepChanges'', ZOptionalBoolean)]\<rparr>,
     \<lparr>tool_name = ''checkin_resources'',
      description = ''Check in one or more resources to ClearCase'',
      parameters = [(''resourcePaths'', ZStringArray), (''comment'', ZOptionalString),
                    (''checkinIdentical'', ZOptionalBoolean)]\<rparr>,
     \<lparr>tool_name = ''login'',
      description = ''Authenticate with ClearCase'',
      parameters = [(''wanServer'', ZString), (''username'', ZString), (''password'', ZString)]\<rparr>,
     \<lparr>tool_name = ''logout'',
      description = ''Logout from ClearCase'',
      parameters = []\<rparr>,
     \<lparr>tool_name = ''add_view'',
      description = ''Add a ClearCase view'',
      parameters = [(''viewPath'', ZString)]\<rparr>,
     \<lparr>tool_name = ''update_view'',
      description = ''Update a ClearCase view'',
      parameters = [(''viewPath'', ZString)]\<rparr>,
     \<lparr>tool_name = ''add_resources'',
      description = ''Add resources to ClearCase source control'',
      parameters = [(''resourcePaths'', ZStringArray), (''comment'', ZOptionalString)]\<rparr>,
     \<lparr>tool_name = ''hijack_resources'',
      description = ''Hijack one or more resources'',
      parameters = [(''resourcePaths'', ZStringArray)]\<rparr>,
     \<lparr>tool_name = ''undo_hijack'',
      description = ''Undo the hijack of one or more resources'',
      parameters = [(''resourcePaths'', ZStringArray)]\<rparr>,
     \<lparr>tool_name = ''rename_resource'',
      description = ''Rename a ClearCase resource'',
      parameters = [(''resourcePath'', ZString), (''newName'', ZString)]\<rparr>,
     \<lparr>tool_name = ''remove_resource'',
      description = ''Remove a ClearCase resource'',
      parameters = [(''resourcePath'', ZString)]\<rparr>,
     \<lparr>tool_name = ''open_file'',
      description = ''Open a ClearCase file'',
      parameters = [(''filePath'', ZString)]\<rparr>]"

text \<open>A tool invocation whose parameters have passed the schema of its tool.\<close>

datatype request =
    Get_clearcase_views
  | Get_resource_status js_string
  | Create_or_set_ucm_activity "js_string option" "js_string option" bool
  | Checkout_resources "js_string list" "js_string option"
  | Undo_checkout "js_string list" "bool option"
  | Checkin_resources "js_string list" "js_string option" "bool option"
  | Login js_string js_string js_string
  | Logout
  | Add_view js_string
  | Update_view js_string
  | Add_resources "js_string list" "js_string option"
  | Hijack_resources "js_string list"
  | Undo_hijack "js_string list"
  | Rename_resource js_string js_string
  | Remove_resource js_string
  | Open_file js_string

fun operation :: "request \<Rightarrow> string" where
  "operation Get_clearcase_views = ''get_clearcase_views''"
| "operation (Get_resource_status _) = ''get_resource_status''"
| "operation (Create_or_set_ucm_activity _ _ _) = ''create_or_set_ucm_activity''"
| "operation (Checkout_resources _ _) = ''checkout_resources''"
| "operation (Undo_checkout _ _) = ''undo_checkout''"
| "operation (Checkin_resources _ _ _) = ''checkin_resources''"
| "operation (Login _ _ _) = ''login''"
| "operation Logout = ''logout''"
| "operation (Add_view _) = ''add_view''"
| "operation (Update_view _) = ''update_view''"
| "operation (Add_resources _ _) = ''add_resources''"
| "operation (Hijack_resources _) = ''hijack_resources''"
| "operation (Undo_hijack _) = ''undo_hijack''"
| "operation (Rename_resource _ _) = ''rename_resource''"
| "operation (Remove_resource _) = ''remove_resource''"
| "operation (Open_file _) = ''open_file''"

text \<open>Dispatch of a request to the handler registered under its name.\<close>

fun call_tool :: "os \<Rightarrow> request \<Rightarrow> response async" where
  "call_tool os Get_clearcase_views = get_clearcase_views os"
| "call_tool os (Get_resource_status resourcePath) = get_resource_status os resourcePath"
| "call_tool os (Create_or_set_ucm_activity activityId activityHeadline setActivity) =
     create_or_set_ucm_activity os activityId activityHeadline setActivity"
| "call_tool os (Checkout_resources resourcePaths comment) =
     checkout_resources os resourcePaths comment"
| "call_tool os (Undo_checkout resourcePaths keepChanges) =
     undo_checkout os resourcePaths keepChanges"
| "call_tool os (Checkin_resources resourcePaths comment checkinIdentical) =
     checkin_resources os resourcePaths comment checkinIdentical"
| "call_tool os (Login wanServer username password) = login os wanServer username password"
| "call_tool os Logout = logout os"
| "call_tool os (Add_view viewPath) = add_view os viewPath"
| "call_tool os (Update_view viewPath) = update_view os viewPath"
| "call_tool os (Add_resources resourcePaths comment) = add_resources os resourcePaths comment"
| "call_tool os (Hijack_resources resourcePaths) = hijack_resources os resourcePaths"
| "call_tool os (Undo_hijack resourcePaths) = undo_hijack os resourcePaths"
| "call_tool os (Rename_resource resourcePath newName) = rename_resource os resourcePath newName"
| "call_tool os (Remove_resource resourcePath) = remove_resource os resourcePath"
| "call_tool os (Open_file filePath) = open_file os filePath"

text \<open>The label with which the \<open>catch\<close> block of each handler starts its text.\<close>

fun error_label :: "request \<Rightarrow> js_string" where
  "error_label Get_clearcase_views = utf16 ''Error retrieving views: ''"
| "error_label (Get_resource_status _) = utf16 ''Error retrieving resource status: ''"
| "error_label (Create_or_set_ucm_activity _ _ _) = utf16 ''Error creating or setting activity: ''"
| "error_label (Checkout_resources _ _) = utf16 ''Error checking out resources: ''"
| "error_label (Undo_checkout _ _) = utf16 ''Error undoing checkout: ''"
| "error_label (Checkin_resources _ _ _) = utf16 ''Error checking in resources: ''"
| "error_label (Login _ _ _) = utf16 ''Error during login: ''"
| "error_label Logout = utf16 ''Error during logout: ''"
| "error_label (Add_view _) = utf16 ''Error adding view: ''"
| "error_label (Update_view _) = utf16 ''Error updating view: ''"
| "error_label (Add_resources _ _) = utf16 ''Error adding resources: ''"
| "error_label (Hijack_resources _) = utf16 ''Error hijacking resources: ''"
| "error_label (Undo_hijack _) = utf16 ''Error undoing hijack: ''"
| "error_label (Rename_resource _ _) = utf16 ''Error renaming resource: ''"
| "error_label (Remove_resource _) = utf16 ''Error removing resource: ''"
| "error_label (Open_file _) = utf16 ''Error opening file: ''"

text \<open>The resource paths of a batch operation; \<open>None\<close> for the other operations.\<close>

fun batch_paths :: "request \<Rightarrow> js_string list option" where
  "batch_paths (Checkout_resources resourcePaths _) = Some resourcePaths"
| "batch_paths (Undo_checkout resourcePaths _) = Some resourcePaths"
| "batch_paths (Checkin_resources resourcePaths _ _) = Some resourcePaths"
| "batch_paths (Add_resources resourcePaths _) = Some resourcePaths"
| "batch_paths (Hijack_resources resourcePaths) = Some resourcePaths"
| "batch_paths (Undo_hijack resourcePaths) = Some resourcePaths"
| "batch_paths _ = None"


text \<open>The label with which a batch handler starts the text of its results.\<close>

fun results_label :: "request \<Rightarrow> js_string option" where
  "results_label (Checkout_resources _ _) = Some (utf16 ''Checkout results:'')"
| "results_label (Undo_checkout _ _) = Some (utf16 ''Undo checkout results:'')"
| "results_label (Checkin_resources _ _ _) = Some (utf16 ''Check-in results:'')"
| "results_label (Add_resources _ _) = Some (utf16 ''Add results:'')"
| "results_label (Hijack_resources _) = Some (utf16 ''Hijack results:'')"
| "results_label (Undo_hijack _) = Some (utf16 ''Undo hijack results:'')"
| "results_label _ = None"


section \<open>Notions of the specification\<close>

text \<open>The outcomes of a list of spawns of which the first is the \<open>n\<close>-th of the
  operating system, and the outcomes of the spawns made between two states of the spawn
  log.\<close>

fun processes :: "os \<Rightarrow> nat \<Rightarrow> spawn_log \<Rightarrow> spawn_outcome list" where
  "processes os n [] = []"
| "processes os n ((command, args) # calls) = os n command args # processes os (Suc n) calls"

definition spawned :: "os \<Rightarrow> spawn_log \<Rightarrow> spawn_log \<Rightarrow> spawn_outcome list" where
  "spawned os log log' = processes os (length log) (drop (length log) log')"

text \<open>A subprocess that exits with status zero, a subprocess that exits with another status
  (or by a signal), and the trimmed output of a subprocess.\<close>

fun exits_zero :: "spawn_outcome \<Rightarrow> bool" where
  "exits_zero (Runs process) = (close_code process = Some 0)"
| "exits_zero (Spawn_throws message) = False"
| "exits_zero (Emits_error message) = False"

fun exits_nonzero :: "spawn_outcome \<Rightarrow> bool" where
  "exits_nonzero (Runs process) = (close_code process \<noteq> Some 0)"
| "exits_nonzero (Spawn_throws message) = False"
| "exits_nonzero (Emits_error message) = False"

fun reaches_close :: "spawn_outcome \<Rightarrow> bool" where
  "reaches_close (Runs process) = True"
| "reaches_close (Spawn_throws message) = False"
| "reaches_close (Emits_error message) = False"

fun trimmed_output :: "spawn_outcome \<Rightarrow> js_string" where
  "trimmed_output (Runs process) = trim (concat (stdout_data process))"
| "trimmed_output (Spawn_throws message) = []"
| "trimmed_output (Emits_error message) = []"

text \<open>What a batch handler makes of the outcomes of its spawns, given the label of its
  results and its error label.\<close>

definition batch_result :: "js_string \<Rightarrow> js_string \<Rightarrow> spawn_outcome list \<Rightarrow> fault + response" where
  "batch_result label failed outcomes =
     (case promise_all (map executor outcomes) of
        Inl (Thrown message) \<Rightarrow> Inr (text_response (failed @ message))
      | Inl (Unhandled message) \<Rightarrow> Inl (Unhandled message)
      | Inr results \<Rightarrow> Inr (text_response (label @ [LF] @ join [LF] results)))"

text \<open>The captured error text of a process, or the generic exit-status message when that
  text is empty.\<close>

definition failure_text :: "child_process \<Rightarrow> js_string" where
  "failure_text process =
     (if trim (concat (stderr_data process)) = []
      then utf16 ''Process exited with code '' @ code_text (close_code process)
      else trim (concat (stderr_data process)))"

text \<open>Each double quote replaced by a backslash-escaped double quote.\<close>

definition escape_quotes :: "js_string \<Rightarrow> js_string" where
  "escape_quotes s = concat (map (\<lambda>c. if c = QUOTE then [BACKSLASH, QUOTE] else [c]) s)"

text \<open>The value of the comment flag: the operation's default comment when the comment is
  absent or empty, the escaped comment otherwise.\<close>

definition comment_value :: "string \<Rightarrow> js_string option \<Rightarrow> js_string" where
  "comment_value fallback comment =
     (case comment of
        None \<Rightarrow> utf16 fallback
      | Some c \<Rightarrow> if c = [] then utf16 fallback else escape_quotes c)"

text \<open>The argument that follows the first occurrence of a flag in an argument vector.\<close>

fun flag_value :: "js_string \<Rightarrow> js_string list \<Rightarrow> js_string option" where
  "flag_value flag [] = None"
| "flag_value flag [a] = None"
| "flag_value flag (a # b # rest) = (if a = flag then Some b else flag_value flag (b # rest))"

text \<open>
  Operating systems for examples:
  \<^item> one in which every process runs and behaves alike;
  \<^item> one in which every process runs, fails exactly when its last argument is \<open>/bad\<close> and
    otherwise prints that argument between blanks;
  \<^item> one in which every process runs and fails, the one for \<open>/slow\<close> closing after all
    the others;
  \<^item> one on which the command is not installed, so that no process can be launched;
  \<^item> one on which \<open>spawn\<close> throws when an argument holds a NUL.
\<close>

definition uniform_os :: "child_process \<Rightarrow> os" where
  "uniform_os process n command args = Runs process"

definition sample_os :: os where
  "sample_os n command args =
     (case rev args of
        [] \<Rightarrow> Runs \<lparr>stdout_data = [], stderr_data = [], close_code = Some 0, close_time = n\<rparr>
      | a # _ \<Rightarrow>
          if a = utf16 ''/bad''
          then Runs \<lparr>stdout_data = [],
                     stderr_data = [utf16 ''cleartool: Error: '', utf16 ''no view ''],
                     close_code = Some 1, close_time = n\<rparr>
          else Runs \<lparr>stdout_data = [utf16 '' done '', a, [LF]], stderr_data = [],
                     close_code = Some 0, close_time = n\<rparr>)"

definition racing_os :: os where
  "racing_os n command args =
     (case rev args of
        [] \<Rightarrow> Runs \<lparr>stdout_data = [], stderr_data = [], close_code = Some 1, close_time = n\<rparr>
      | a # _ \<Rightarrow>
          Runs \<lparr>stdout_data = [], stderr_data = [utf16 ''cannot lock '', a],
                close_code = Some 1,
                close_time = (if a = utf16 ''/slow'' then 100 else n)\<rparr>)"

definition missing_command_os :: os where
  "missing_command_os n command args = Emits_error (utf16 ''spawn '' @ command @ utf16 '' ENOENT'')"

definition throwing_os :: os where
  "throwing_os n command args =
     (if list_ex (\<lambda>a. 0 \<in> set a) args
      then Spawn_throws (utf16 ''The argument must be a string without null bytes'')
      else Runs \<lparr>stdout_data = [], stderr_data = [], close_code = Some 0, close_time = n\<rparr>)"


section \<open>Facts about the execution adapter and the promise combinators\<close>

lemma accumulate_concat: "accumulate chunks = concat chunks"
proof -
  have "foldl (\<lambda>acc data. acc @ data) a chunks = a @ concat chunks" for a :: js_string
    by (induction chunks arbitrary: a) simp_all
  then show ?thesis by (simp add: accumulate_def)
qed

lemma on_close_failure_text:
  "on_close p =
     (if close_code p = Some 0 then Inr (trim (concat (stdout_data p)))
      else Inl (Thrown (failure_text p)))"
  by (simp add: on_close_def failure_text_def accumulate_concat Let_def)

lemma executor_simps [simp]:
  "executor (Spawn_throws m) = (0, Inl (Thrown m))"
  "executor (Emits_error m) = (0, Inl (Unhandled m))"
  "executor (Runs p) = (Suc (close_time p), on_close p)"
  by (simp_all add: executor_def)

lemma await_command_eq:
  "await_command os c args log = (snd (executor (os (length log) c args)), log @ [(c, args)])"
  by (simp add: await_command_def executeClearToolCommand_def)

lemma try_single:
  "try_catch (bind_async (await_command os c args) (\<lambda>out. return_async (f out)))
      (\<lambda>m. return_async (g m)) log =
   ((case snd (executor (os (length log) c args)) of
       Inl (Thrown m) \<Rightarrow> Inr (g m)
     | Inl (Unhandled m) \<Rightarrow> Inl (Unhandled m)
     | Inr out \<Rightarrow> Inr (f out)),
    log @ [(c, args)])"
  by (simp add: try_catch_def bind_async_def return_async_def await_command_eq
        split: sum.split fault.split)

lemma map_execute_log:
  "snd (map_execute os c args paths log) = log @ map (\<lambda>p. (c, args p)) paths"
  by (induction paths arbitrary: log)
     (simp_all add: executeClearToolCommand_def split_beta)

lemma spawned_append [simp]: "spawned os log (log @ calls) = processes os (length log) calls"
  by (simp add: spawned_def)

lemma spawned_same [simp]: "spawned os log log = []"
  by (simp add: spawned_def)

lemma map_execute_promises:
  "fst (map_execute os c args paths log) =
     map executor (processes os (length log) (map (\<lambda>p. (c, args p)) paths))"
proof (induction paths arbitrary: log)
  case Nil
  show ?case by simp
next
  case (Cons path paths)
  show ?case
    using Cons.IH [of "log @ [(c, args path)]"]
    by (simp add: executeClearToolCommand_def split_beta)
qed

lemma first_unhandled_None:
  "\<forall>outcome \<in> set outcomes. \<forall>m. outcome \<noteq> Emits_error m \<Longrightarrow>
     first_unhandled (map executor outcomes) = None"
proof (induction outcomes)
  case Nil
  show ?case by simp
next
  case (Cons outcome outcomes)
  then show ?case
    by (cases outcome) (simp_all add: on_close_failure_text)
qed

lemma first_unhandled_Some:
  "\<exists>outcome \<in> set outcomes. \<exists>m. outcome = Emits_error m \<Longrightarrow>
     \<exists>m. Emits_error m \<in> set outcomes \<and> first_unhandled (map executor outcomes) = Some m"
proof (induction outcomes)
  case Nil
  then show ?case by simp
next
  case (Cons outcome outcomes)
  show ?case
  proof (cases outcome)
    case (Emits_error m)
    then show ?thesis by auto
  next
    case (Spawn_throws m)
    with Cons show ?thesis by auto
  next
    case (Runs p)
    with Cons show ?thesis by (auto simp: on_close_failure_text)
  qed
qed

lemma first_rejection_exits_zero:
  "\<forall>outcome \<in> set outcomes. exits_zero outcome \<Longrightarrow>
     first_rejection (map executor outcomes) = None \<and>
     fulfilled_values (map executor outcomes) = map trimmed_output outcomes"
proof (induction outcomes)
  case Nil
  show ?case by simp
next
  case (Cons outcome outcomes)
  then show ?case
    by (cases outcome) (simp_all add: on_close_failure_text)
qed

lemma promise_all_fulfilled:
  assumes "\<forall>outcome \<in> set outcomes. exits_zero outcome"
  shows "promise_all (map executor outcomes) = Inr (map trimmed_output outcomes)"
proof -
  have "\<forall>outcome \<in> set outcomes. \<forall>m. outcome \<noteq> Emits_error m"
    using assms by auto
  then have "first_unhandled (map executor outcomes) = None"
    by (rule first_unhandled_None)
  with first_rejection_exits_zero [OF assms] show ?thesis
    by (simp add: promise_all_def)
qed

text \<open>Among processes that all reach their close event, the rejection that \<open>Promise.all\<close>
  reports is that of a failed process that no other failed process precedes in time.\<close>

lemma first_rejection_earliest:
  assumes "\<forall>outcome \<in> set outcomes. reaches_close outcome"
    and "\<exists>outcome \<in> set outcomes. exits_nonzero outcome"
  shows "\<exists>p. Runs p \<in> set outcomes \<and> close_code p \<noteq> Some 0 \<and>
           (\<forall>q. Runs q \<in> set outcomes \<and> close_code q \<noteq> Some 0 \<longrightarrow> close_time p \<le> close_time q) \<and>
           first_rejection (map executor outcomes) = Some (Suc (close_time p), failure_text p)"
  using assms
proof (induction outcomes)
  case Nil
  then show ?case by simp
next
  case (Cons outcome outcomes)
  from Cons.prems(1) obtain p0 where o: "outcome = Runs p0"
    by (cases outcome) auto
  from Cons.prems(1) have all: "\<forall>outcome \<in> set outcomes. reaches_close outcome" by simp
  show ?case
  proof (cases "\<exists>outcome \<in> set outcomes. exits_nonzero outcome")
    case True
    from Cons.IH [OF all True] obtain p where
      p: "Runs p \<in> set outcomes" "close_code p \<noteq> Some 0"
         "\<forall>q. Runs q \<in> set outcomes \<and> close_code q \<noteq> Some 0 \<longrightarrow> close_time p \<le> close_time q"
         "first_rejection (map executor outcomes) = Some (Suc (close_time p), failure_text p)"
      by blast
    show ?thesis
    proof (cases "close_code p0 = Some 0")
      case True
      with o p show ?thesis by (auto simp: on_close_failure_text)
    next
      case False
      show ?thesis
      proof (cases "close_time p < close_time p0")
        case True
        with o p False have "first_rejection (map executor (outcome # outcomes)) =
            Some (Suc (close_time p), failure_text p)"
          by (simp add: on_close_failure_text)
        moreover have "\<forall>q. Runs q \<in> set (outcome # outcomes) \<and> close_code q \<noteq> Some 0
            \<longrightarrow> close_time p \<le> close_time q"
          using o p(3) True by auto
        ultimately show ?thesis using p(1,2) by auto
      next
        case notless: False
        with o p False have "first_rejection (map executor (outcome # outcomes)) =
            Some (Suc (close_time p0), failure_text p0)"
          by (simp add: on_close_failure_text)
        moreover have "\<forall>q. Runs q \<in> set (outcome # outcomes) \<and> close_code q \<noteq> Some 0
            \<longrightarrow> close_time p0 \<le> close_time q"
          using o p(3) notless by fastforce
        ultimately show ?thesis using o False by auto
      qed
    qed
  next
    case False
    with all have zero: "\<forall>outcome \<in> set outcomes. exits_zero outcome"
    proof (intro ballI)
      fix x assume "x \<in> set outcomes"
      with False all have "\<not> exits_nonzero x" "reaches_close x" by auto
      then show "exits_zero x" by (cases x) auto
    qed
    from False Cons.prems(2) o have ne: "close_code p0 \<noteq> Some 0" by auto
    have none: "first_rejection (map executor outcomes) = None"
      using first_rejection_exits_zero [OF zero] by simp
    have "\<forall>q. Runs q \<in> set outcomes \<longrightarrow> close_code q = Some 0"
      using zero by fastforce
    with o ne none show ?thesis
      by (auto simp: on_close_failure_text)
  qed
qed

lemma promise_all_rejected:
  assumes "\<forall>outcome \<in> set outcomes. reaches_close outcome"
    and "\<exists>outcome \<in> set outcomes. exits_nonzero outcome"
  shows "\<exists>p. Runs p \<in> set outcomes \<and> close_code p \<noteq> Some 0 \<and>
           (\<forall>q. Runs q \<in> set outcomes \<and> close_code q \<noteq> Some 0 \<longrightarrow> close_time p \<le> close_time q) \<and>
           promise_all (map executor outcomes) = Inl (Thrown (failure_text p))"
proof -
  have "\<forall>outcome \<in> set outcomes. \<forall>m. outcome \<noteq> Emits_error m"
    using assms(1) by auto
  then have "first_unhandled (map executor outcomes) = None"
    by (rule first_unhandled_None)
  with first_rejection_earliest [OF assms] show ?thesis
    by (auto simp: promise_all_def)
qed

lemma promise_all_unhandled:
  assumes "\<exists>outcome \<in> set outcomes. \<exists>m. outcome = Emits_error m"
  shows "\<exists>m. Emits_error m \<in> set outcomes \<and>
           promise_all (map executor outcomes) = Inl (Unhandled m)"
  using first_unhandled_Some [OF assms] by (auto simp: promise_all_def)

lemma try_batch:
  "try_catch (bind_async (await_all os c args paths) (\<lambda>rs. return_async (f rs)))
      (\<lambda>m. return_async (g m)) log =
   ((case promise_all (map executor
                 (processes os (length log) (map (\<lambda>p. (c, args p)) paths))) of
       Inl (Thrown m) \<Rightarrow> Inr (g m)
     | Inl (Unhandled m) \<Rightarrow> Inl (Unhandled m)
     | Inr rs \<Rightarrow> Inr (f rs)),
    log @ map (\<lambda>p. (c, args p)) paths)"
proof -
  have "map_execute os c args paths log =
     (map executor (processes os (length log) (map (\<lambda>p. (c, args p)) paths)),
      log @ map (\<lambda>p. (c, args p)) paths)"
    by (simp add: prod_eq_iff map_execute_log map_execute_promises)
  then show ?thesis
    by (simp add: try_catch_def bind_async_def return_async_def await_all_def
          split: sum.split fault.split)
qed


section \<open>Facts about the handlers\<close>

lemma create_or_set_ucm_activity_eq:
  "create_or_set_ucm_activity os activityId activityHeadline setActivity log =
    (case truthy_string activityId of
       Some ident \<Rightarrow>
         ((case snd (executor (os (length log) cleartool [utf16 ''setactivity'', ident])) of
             Inl (Thrown m) \<Rightarrow>
               Inr (text_response (utf16 ''Error creating or setting activity: '' @ m))
           | Inl (Unhandled m) \<Rightarrow> Inl (Unhandled m)
           | Inr out \<Rightarrow>
               Inr (text_response (utf16 ''Activity '' @ ident @ utf16 '' set successfully.''))),
          log @ [(cleartool, [utf16 ''setactivity'', ident])])
     | None \<Rightarrow>
         (case truthy_string activityHeadline of
            None \<Rightarrow>
              (Inr (text_response (utf16 ''Error creating or setting activity: '' @
                      utf16 ''Either activityId or activityHeadline must be provided.'')), log)
          | Some headline \<Rightarrow>
              (case snd (executor (os (length log) cleartool
                       [utf16 ''mkactivity'', utf16 ''-headline'', headline])) of
                 Inl (Thrown m) \<Rightarrow>
                   (Inr (text_response (utf16 ''Error creating or setting activity: '' @ m)),
                    log @ [(cleartool, [utf16 ''mkactivity'', utf16 ''-headline'', headline])])
               | Inl (Unhandled m) \<Rightarrow>
                   (Inl (Unhandled m),
                    log @ [(cleartool, [utf16 ''mkactivity'', utf16 ''-headline'', headline])])
               | Inr output \<Rightarrow>
                   if setActivity
                   then ((case snd (executor (os (Suc (length log)) cleartool
                                       [utf16 ''setactivity'', first_line output])) of
                            Inl (Thrown m) \<Rightarrow>
                              Inr (text_response
                                     (utf16 ''Error creating or setting activity: '' @ m))
                          | Inl (Unhandled m) \<Rightarrow> Inl (Unhandled m)
                          | Inr _ \<Rightarrow>
                              Inr (text_response
                                     (utf16 ''Activity created successfully:'' @ [LF] @ output))),
                         log @ [(cleartool, [utf16 ''mkactivity'', utf16 ''-headline'', headline]),
                                (cleartool, [utf16 ''setactivity'', first_line output])])
                   else (Inr (text_response
                                (utf16 ''Activity created successfully:'' @ [LF] @ output)),
                         log @ [(cleartool, [utf16 ''mkactivity'', utf16 ''-headline'', headline])]))))"
  by (simp add: create_or_set_ucm_activity_def try_catch_def bind_async_def return_async_def
        throw_async_def await_command_eq split: option.split sum.split fault.split)

lemmas single_handler_defs =
  get_clearcase_views_def get_resource_status_def login_def logout_def add_view_def
  update_view_def rename_resource_def remove_resource_def open_file_def

lemmas batch_handler_defs =
  checkout_resources_def undo_checkout_def checkin_resources_def add_resources_def
  hijack_resources_def undo_hijack_def

lemma single_reports:
  assumes "reaches_close outcome"
  shows "\<exists>body. (case snd (executor outcome) of
                  Inl (Thrown m) \<Rightarrow> Inr (text_response (lbl @ m))
                | Inl (Unhandled m) \<Rightarrow> Inl (Unhandled m)
                | Inr out \<Rightarrow> Inr (text_response (f out))) = Inr (Response [Text body]) \<and>
          (exits_nonzero outcome \<longrightarrow>
             (\<exists>p. Runs p = outcome \<and> close_code p \<noteq> Some 0 \<and> body = lbl @ failure_text p))"
  using assms by (cases outcome) (auto simp: on_close_failure_text text_response_def)

lemma batch_reports:
  assumes "\<forall>outcome \<in> set outcomes. reaches_close outcome"
  shows "\<exists>body. (case promise_all (map executor outcomes) of
                  Inl (Thrown m) \<Rightarrow> Inr (text_response (lbl @ m))
                | Inl (Unhandled m) \<Rightarrow> Inl (Unhandled m)
                | Inr rs \<Rightarrow> Inr (text_response (f rs))) = Inr (Response [Text body]) \<and>
          ((\<exists>outcome \<in> set outcomes. exits_nonzero outcome) \<longrightarrow>
             (\<exists>p. Runs p \<in> set outcomes \<and> close_code p \<noteq> Some 0 \<and>
                  body = lbl @ failure_text p))"
proof (cases "\<exists>outcome \<in> set outcomes. exits_nonzero outcome")
  case True
  from promise_all_rejected [OF assms True] obtain p where
    "Runs p \<in> set outcomes" "close_code p \<noteq> Some 0"
    "promise_all (map executor outcomes) = Inl (Thrown (failure_text p))"
    by blast
  then show ?thesis by (auto simp: text_response_def)
next
  case False
  have "\<forall>outcome \<in> set outcomes. exits_zero outcome"
  proof
    fix x assume "x \<in> set outcomes"
    with False assms have "\<not> exits_nonzero x" "reaches_close x" by auto
    then show "exits_zero x" by (cases x) auto
  qed
  from promise_all_fulfilled [OF this] False show ?thesis
    by (simp add: text_response_def)
qed


section \<open>The execution adapter\<close>

text \<open>What \<open>trim\<close> removes is white space at the two ends, and nothing else.\<close>

lemma trim_sandwich:
  "\<exists>pre post. s = pre @ trim s @ post \<and> (\<forall>c \<in> set pre. is_white_space c) \<and> (\<forall>c \<in> set post. is_white_space c)"
proof -
  let ?m = "dropWhile is_white_space s"
  have a: "s = takeWhile is_white_space s @ ?m" by simp
  have b: "rev ?m = takeWhile is_white_space (rev ?m) @ dropWhile is_white_space (rev ?m)" by simp
  have "?m = rev (dropWhile is_white_space (rev ?m)) @ rev (takeWhile is_white_space (rev ?m))"
    by (metis b rev_append rev_rev_ident)
  then have "s = takeWhile is_white_space s @ trim s @ rev (takeWhile is_white_space (rev ?m))"
    using a by (simp add: trim_def)
  moreover have "\<forall>c \<in> set (takeWhile is_white_space s). is_white_space c"
    by (auto dest: set_takeWhileD)
  moreover have "\<forall>c \<in> set (rev (takeWhile is_white_space (rev ?m))). is_white_space c"
    by (auto dest: set_takeWhileD)
  ultimately show ?thesis by blast
qed

lemma trim_ends:
  "trim s \<noteq> [] \<Longrightarrow> \<not> is_white_space (hd (trim s)) \<and> \<not> is_white_space (last (trim s))"
proof -
  assume ne: "trim s \<noteq> []"
  let ?m = "dropWhile is_white_space s"
  let ?r = "dropWhile is_white_space (rev ?m)"
  have r: "?r \<noteq> []" using ne by (simp add: trim_def)
  then have h: "\<not> is_white_space (hd ?r)" by (rule hd_dropWhile)
  have l: "last (trim s) = hd ?r" using r by (simp add: trim_def last_rev)
  have "?m \<noteq> []"
  proof
    assume "?m = []"
    then have "?r = []" by (simp only: rev.simps dropWhile.simps)
    with r show False by simp
  qed
  then have hm: "\<not> is_white_space (hd ?m)" by (rule hd_dropWhile)
  have "rev ?m = takeWhile is_white_space (rev ?m) @ ?r" by simp
  then have "?m = rev ?r @ rev (takeWhile is_white_space (rev ?m))"
    by (metis rev_append rev_rev_ident)
  then have "hd ?m = hd (rev ?r)" using r by (metis hd_append2 rev_is_Nil_conv)
  then have "hd (trim s) = hd ?m" by (simp add: trim_def)
  with hm h l show ?thesis by simp
qed

lemma code_text_examples:
  "code_text (Some 127) = utf16 ''127'' \<and> code_text None = utf16 ''null'' \<and>
   code_text (Some (- 2)) = utf16 ''-2''"
  by code_simp

text \<open>
  Claim C2, as stated, at a process that prints \<open>" ok\n"\<close> and exits with status zero: the
  adapter resolves with \<open>"ok"\<close>, whereas the accumulated output trimmed on the right only is
  \<open>" ok"\<close>. The adapter calls \<open>trim\<close>, which removes the leading white space too.
\<close>

theorem adapter_right_trim_counterexample:
  "snd (fst (executeClearToolCommand
       (uniform_os \<lparr>stdout_data = [utf16 '' ok'', [LF]], stderr_data = [],
                    close_code = Some 0, close_time = 0\<rparr>)
       cleartool [utf16 ''lsview''] [])) = Inr (utf16 ''ok'')
   \<and> trimEnd (accumulate [utf16 '' ok'', [LF]]) = utf16 '' ok''
   \<and> snd (fst (executeClearToolCommand
       (uniform_os \<lparr>stdout_data = [utf16 '' ok'', [LF]], stderr_data = [],
                    close_code = Some 0, close_time = 0\<rparr>)
       cleartool [utf16 ''lsview''] [])) \<noteq> Inr (trimEnd (accumulate [utf16 '' ok'', [LF]]))"
  by code_simp

text \<open>
  Claim C2, amended: the execution adapter spawns one process for the command and the
  argument vector; it resolves with the concatenation of the standard-output chunks, with
  the white space at both ends removed, when the code of the \<open>close\<close> event is zero;
  for every other code (a non-zero number, or none after a signal) it rejects with the
  concatenation of the standard-error chunks, with the white space at both ends removed,
  or, when that text is empty, with \<open>Process exited with code\<close> followed by the code.
  The first two cases of the equation are the spawns that have no \<open>close\<close> event.
\<close>

theorem adapter_resolves_or_rejects:
  "executeClearToolCommand os command args log =
     ((case os (length log) command args of
         Spawn_throws message \<Rightarrow> (0, Inl (Thrown message))
       | Emits_error message \<Rightarrow> (0, Inl (Unhandled message))
       | Runs process \<Rightarrow>
           (Suc (close_time process),
            if close_code process = Some 0
            then Inr (trim (concat (stdout_data process)))
            else Inl (Thrown
                   (if trim (concat (stderr_data process)) = []
                    then utf16 ''Process exited with code '' @ code_text (close_code process)
                    else trim (concat (stderr_data process)))))),
      log @ [(command, args)])"
  by (simp add: executeClearToolCommand_def executor_def on_close_failure_text failure_text_def
        split: spawn_outcome.split)

theorem adapter_resolves_or_rejects_witness:
  "executeClearToolCommand
     (uniform_os \<lparr>stdout_data = [utf16 ''partial''], stderr_data = [[LF], [LF]],
                  close_code = Some 3, close_time = 7\<rparr>)
     cleartool [utf16 ''lsview''] [] =
   ((8, Inl (Thrown (utf16 ''Process exited with code 3''))), [(cleartool, [utf16 ''lsview''])])"
proof -
  let ?p = "\<lparr>stdout_data = [utf16 ''partial''], stderr_data = [[LF], [LF]],
             close_code = Some 3, close_time = 7\<rparr>"
  have blank: "trim [LF, LF] = []"
    by code_simp
  have generic: "utf16 ''Process exited with code '' @ code_text (Some 3) =
      utf16 ''Process exited with code 3''"
    by code_simp
  show ?thesis
    using adapter_resolves_or_rejects [of "uniform_os ?p" cleartool "[utf16 ''lsview'']" "[]"]
    by (simp add: uniform_os_def blank generic)
qed


section \<open>Facts about the batch handlers\<close>

lemma replace_quotes_escape: "replace_quotes s = escape_quotes s"
  by (induction s) (simp_all add: escape_quotes_def)

lemma comment_arg_value:
  "(case truthy_string comment of Some c \<Rightarrow> replace_quotes c | None \<Rightarrow> utf16 fallback) =
     comment_value fallback comment"
  by (simp add: truthy_string_def comment_value_def replace_quotes_escape split: option.split)

lemma escape_quotes_nonempty: "escape_quotes s = [] \<longleftrightarrow> s = []"
  by (cases s) (simp_all add: escape_quotes_def)

lemma utf16_nonempty: "utf16 s = [] \<longleftrightarrow> s = []"
  by (simp add: utf16_def)

lemma batch_result_success:
  "\<forall>outcome \<in> set outcomes. exits_zero outcome \<Longrightarrow>
     batch_result label failed outcomes =
       Inr (Response [Text (label @ [LF] @ join [LF] (map trimmed_output outcomes))])"
  by (simp add: batch_result_def promise_all_fulfilled text_response_def)

lemma batch_result_earliest_failure:
  assumes "\<forall>outcome \<in> set outcomes. reaches_close outcome"
    and "\<exists>outcome \<in> set outcomes. exits_nonzero outcome"
  shows "\<exists>p. Runs p \<in> set outcomes \<and> close_code p \<noteq> Some 0 \<and>
           (\<forall>q. Runs q \<in> set outcomes \<and> close_code q \<noteq> Some 0 \<longrightarrow> close_time p \<le> close_time q) \<and>
           batch_result label failed outcomes =
             Inr (Response [Text (failed @ failure_text p)])"
proof -
  from promise_all_rejected [OF assms] obtain p where
    p: "Runs p \<in> set outcomes" "close_code p \<noteq> Some 0"
       "\<forall>q. Runs q \<in> set outcomes \<and> close_code q \<noteq> Some 0 \<longrightarrow> close_time p \<le> close_time q"
       "promise_all (map executor outcomes) = Inl (Thrown (failure_text p))"
    by blast
  from p(4) have "batch_result label failed outcomes =
      Inr (Response [Text (failed @ failure_text p)])"
    by (simp add: batch_result_def text_response_def)
  with p(1,2,3) show ?thesis by blast
qed

lemma checkout_resources_eq:
  "checkout_resources os resourcePaths comment log =
     (batch_result (utf16 ''Checkout results:'') (utf16 ''Error checking out resources: '')
        (processes os (length log)
           (map (\<lambda>path. (cleartool, [utf16 ''checkout'', utf16 ''-c'',
                  comment_value ''automated checkout'' comment, path])) resourcePaths)),
      log @ map (\<lambda>path. (cleartool, [utf16 ''checkout'', utf16 ''-c'',
                   comment_value ''automated checkout'' comment, path])) resourcePaths)"
  by (simp add: checkout_resources_def Let_def try_batch comment_arg_value batch_result_def
        cong: sum.case_cong fault.case_cong)

lemma checkin_resources_eq:
  "checkin_resources os resourcePaths comment checkinIdentical log =
     (batch_result (utf16 ''Check-in results:'') (utf16 ''Error checking in resources: '')
        (processes os (length log)
           (map (\<lambda>path. (cleartool, utf16 ''checkin'' #
                  (if checkinIdentical = Some True then [utf16 ''-identical''] else []) @
                  [utf16 ''-c'', comment_value ''automated checkin'' comment, path]))
              resourcePaths)),
      log @ map (\<lambda>path. (cleartool, utf16 ''checkin'' #
                   (if checkinIdentical = Some True then [utf16 ''-identical''] else []) @
                   [utf16 ''-c'', comment_value ''automated checkin'' comment, path]))
               resourcePaths)"
  by (cases checkinIdentical)
     (simp_all add: checkin_resources_def Let_def try_batch comment_arg_value truthy_bool_def
        batch_result_def cong: sum.case_cong fault.case_cong)

lemma add_resources_eq:
  "add_resources os resourcePaths comment log =
     (batch_result (utf16 ''Add results:'') (utf16 ''Error adding resources: '')
        (processes os (length log)
           (map (\<lambda>path. (cleartool, [utf16 ''mkelem'', utf16 ''-c'',
                  comment_value ''automated add'' comment, path])) resourcePaths)),
      log @ map (\<lambda>path. (cleartool, [utf16 ''mkelem'', utf16 ''-c'',
                   comment_value ''automated add'' comment, path])) resourcePaths)"
  by (simp add: add_resources_def Let_def try_batch comment_arg_value batch_result_def
        cong: sum.case_cong fault.case_cong)

lemma undo_checkout_eq:
  "undo_checkout os resourcePaths keepChanges log =
     (batch_result (utf16 ''Undo checkout results:'') (utf16 ''Error undoing checkout: '')
        (processes os (length log)
           (map (\<lambda>path. (cleartool, [utf16 ''uncheckout'',
                  if keepChanges = Some True then utf16 ''-keep'' else utf16 ''-rm'', path]))
              resourcePaths)),
      log @ map (\<lambda>path. (cleartool, [utf16 ''uncheckout'',
                   if keepChanges = Some True then utf16 ''-keep'' else utf16 ''-rm'', path]))
               resourcePaths)"
proof -
  have tb: "truthy_bool keepChanges \<longleftrightarrow> keepChanges = Some True"
    by (simp add: truthy_bool_def split: option.split)
  show ?thesis
    by (simp add: undo_checkout_def try_batch tb batch_result_def
          cong: sum.case_cong fault.case_cong)
qed

lemma hijack_resources_eq:
  "hijack_resources os resourcePaths log =
     (batch_result (utf16 ''Hijack results:'') (utf16 ''Error hijacking resources: '')
        (processes os (length log)
           (map (\<lambda>path. (cleartool, [utf16 ''hijack'', path])) resourcePaths)),
      log @ map (\<lambda>path. (cleartool, [utf16 ''hijack'', path])) resourcePaths)"
  by (simp add: hijack_resources_def try_batch batch_result_def
        cong: sum.case_cong fault.case_cong)

lemma undo_hijack_eq:
  "undo_hijack os resourcePaths log =
     (batch_result (utf16 ''Undo hijack results:'') (utf16 ''Error undoing hijack: '')
        (processes os (length log)
           (map (\<lambda>path. (cleartool, [utf16 ''unhijack'', path])) resourcePaths)),
      log @ map (\<lambda>path. (cleartool, [utf16 ''unhijack'', path])) resourcePaths)"
  by (simp add: undo_hijack_def try_batch batch_result_def
        cong: sum.case_cong fault.case_cong)

section \<open>Batch checkout\<close>




section \<open>Failures of the launch\<close>

text \<open>
  Claim C1 says that whatever step of an invocation fails, the handler catches the failure
  and returns one text block that starts with the error label of the operation, and that
  no invocation ends in an unhandled fault. On a host on which \<open>cleartool\<close> cannot be
  launched this is not so: the child emits \<open>error\<close>, for which the adapter has registered
  no listener, so there is no rejection that the \<open>catch\<close> block of the handler could turn
  into a response. The invocation of \<open>get_clearcase_views\<close> ends with the unhandled
  fault, after its one call of \<open>spawn\<close>, and not with a text block that starts with
  \<open>Error retrieving views:\<close>.
\<close>

theorem launch_failure_is_unhandled:
  "call_tool missing_command_os Get_clearcase_views [] =
     (Inl (Unhandled (utf16 ''spawn cleartool ENOENT'')), [(cleartool, [utf16 ''lsview''])])"
  by code_simp

text \<open>
  When every spawn of an invocation runs to its \<open>close\<close> event, the handler returns a
  response of exactly one text block; and when one of the processes closes with a code
  other than zero, the text is the error label of the operation followed by the captured
  error text of a failed process (or the generic exit-status message).
\<close>

lemma handlers_report_close_failures:
  assumes "\<forall>outcome \<in> set (spawned os log (snd (call_tool os req log))). reaches_close outcome"
  shows "\<exists>body. fst (call_tool os req log) = Inr (Response [Text body]) \<and>
     ((\<exists>outcome \<in> set (spawned os log (snd (call_tool os req log))). exits_nonzero outcome) \<longrightarrow>
      (\<exists>p. Runs p \<in> set (spawned os log (snd (call_tool os req log))) \<and>
           close_code p \<noteq> Some 0 \<and> body = error_label req @ failure_text p))"
proof (cases req)
  case (Create_or_set_ucm_activity activityId activityHeadline setActivity)
  note eq = Create_or_set_ucm_activity call_tool.simps error_label.simps
    create_or_set_ucm_activity_eq
  show ?thesis
  proof (cases "truthy_string activityId")
    case (Some ident)
    with assms show ?thesis
      unfolding eq by (simp add: single_reports)
  next
    case None
    note no_id = this
    show ?thesis
    proof (cases "truthy_string activityHeadline")
      case None
      with no_id show ?thesis
        unfolding eq by (simp add: text_response_def)
    next
      case (Some headline)
      let ?mk = "[utf16 ''mkactivity'', utf16 ''-headline'', headline]"
      show ?thesis
      proof (cases "os (length log) cleartool ?mk")
        case (Spawn_throws m)
        with assms no_id Some show ?thesis
          unfolding eq by simp
      next
        case (Emits_error m)
        with assms no_id Some show ?thesis
          unfolding eq by simp
      next
        case (Runs p1)
        note first = this
        show ?thesis
        proof (cases "close_code p1 = Some 0")
          case False
          with no_id Some first show ?thesis
            unfolding eq by (simp add: on_close_failure_text text_response_def)
        next
          case True
          note ok = this
          show ?thesis
          proof (cases setActivity)
            case False
            with no_id Some first ok show ?thesis
              unfolding eq by (simp add: on_close_failure_text text_response_def)
          next
            case True
            let ?set = "[utf16 ''setactivity'', first_line (trim (concat (stdout_data p1)))]"
            show ?thesis
            proof (cases "os (Suc (length log)) cleartool ?set")
              case (Spawn_throws m)
              with assms no_id Some first ok True show ?thesis
                unfolding eq by (simp add: on_close_failure_text)
            next
              case (Emits_error m)
              with assms no_id Some first ok True show ?thesis
                unfolding eq by (simp add: on_close_failure_text)
            next
              case (Runs p2)
              with no_id Some first ok True show ?thesis
                unfolding eq by (auto simp: on_close_failure_text text_response_def)
            qed
          qed
        qed
      qed
    qed
  qed
qed (use assms in \<open>simp_all add: single_handler_defs batch_handler_defs try_single try_batch Let_def
      single_reports batch_reports\<close>)

text \<open>The same holds of every operation on such a host, as soon as the handler calls the
  adapter.\<close>

lemma first_unhandled_missing_command:
  "calls \<noteq> [] \<Longrightarrow> \<forall>call \<in> set calls. fst call = cleartool \<Longrightarrow>
     first_unhandled (map executor (processes missing_command_os n calls)) =
       Some (utf16 ''spawn cleartool ENOENT'')"
proof (cases calls)
  case Nil
  assume "calls \<noteq> []"
  with Nil show ?thesis by simp
next
  case (Cons call rest)
  assume "\<forall>call \<in> set calls. fst call = cleartool"
  with Cons have "fst call = cleartool" by simp
  moreover have "utf16 ''spawn '' @ cleartool @ utf16 '' ENOENT'' = utf16 ''spawn cleartool ENOENT''"
    by code_simp
  ultimately show ?thesis
    using Cons by (cases call) (simp add: missing_command_os_def)
qed

lemma batch_result_missing_command:
  "paths \<noteq> [] \<Longrightarrow>
     batch_result label failed
       (processes missing_command_os n (map (\<lambda>path. (cleartool, args path)) paths)) =
     Inl (Unhandled (utf16 ''spawn cleartool ENOENT''))"
  using first_unhandled_missing_command [of "map (\<lambda>path. (cleartool, args path)) paths" n]
  by (simp add: batch_result_def promise_all_def)

lemma missing_command_never_answers:
  assumes "snd (call_tool missing_command_os req log) \<noteq> log"
  shows "fst (call_tool missing_command_os req log) =
           Inl (Unhandled (utf16 ''spawn cleartool ENOENT''))"
proof -
  have enoent: "utf16 ''spawn '' @ cleartool @ utf16 '' ENOENT'' = utf16 ''spawn cleartool ENOENT''"
    by code_simp
  have single: "snd (executor (missing_command_os n cleartool args)) =
      Inl (Unhandled (utf16 ''spawn cleartool ENOENT''))" for n args
    using enoent by (simp add: missing_command_os_def)
  show ?thesis
  proof (cases req)
    case (Create_or_set_ucm_activity activityId activityHeadline setActivity)
    with assms show ?thesis
      by (simp add: create_or_set_ucm_activity_eq single split: option.splits)
  next
    case (Checkout_resources resourcePaths comment)
    with assms show ?thesis
      by (simp add: checkout_resources_eq batch_result_missing_command)
  next
    case (Undo_checkout resourcePaths keepChanges)
    with assms show ?thesis
      by (simp add: undo_checkout_eq batch_result_missing_command)
  next
    case (Checkin_resources resourcePaths comment checkinIdentical)
    with assms show ?thesis
      by (simp add: checkin_resources_eq batch_result_missing_command)
  next
    case (Add_resources resourcePaths comment)
    with assms show ?thesis
      by (simp add: add_resources_eq batch_result_missing_command)
  next
    case (Hijack_resources resourcePaths)
    with assms show ?thesis
      by (simp add: hijack_resources_eq batch_result_missing_command)
  next
    case (Undo_hijack resourcePaths)
    with assms show ?thesis
      by (simp add: undo_hijack_eq batch_result_missing_command)
  qed (simp_all add: single_handler_defs try_single single)
qed

text \<open>When \<open>spawn\<close> itself throws, the promise is rejected and the handler answers; the
  text after the label is then the message of that exception.\<close>

lemma spawn_exception_is_reported:
  "call_tool throwing_os (Get_resource_status (utf16 ''/a'' @ [0])) [] =
     (Inr (Response [Text (utf16
        ''Error retrieving resource status: The argument must be a string without null bytes'')]),
      [(cleartool, [utf16 ''describe'', utf16 ''/a'' @ [0]])])"
  by code_simp


section \<open>Argument vectors\<close>

text \<open>
  Claim C7: for every \<open>checkin_resources\<close> request the argument vector of each path is
  \<open>checkin\<close>, then \<open>-identical\<close> exactly when \<open>checkinIdentical\<close> is true (omitted when it
  is false or absent), then \<open>-c\<close> and the comment value, then the path; so \<open>-identical\<close>
  stands before the comment flag.
\<close>

theorem checkin_resources_argument_vectors:
  "snd (checkin_resources os resourcePaths comment checkinIdentical log) =
     log @ map (\<lambda>path. (cleartool,
                  [utf16 ''checkin''] @
                  (if checkinIdentical = Some True then [utf16 ''-identical''] else []) @
                  [utf16 ''-c'', comment_value ''automated checkin'' comment] @ [path]))
             resourcePaths"
  by (simp add: checkin_resources_eq)

theorem checkin_resources_argument_vectors_witness:
  "snd (checkin_resources sample_os [utf16 ''/a'', utf16 ''/b''] (Some (utf16 ''fix'')) (Some True) []) =
     [(cleartool, [utf16 ''checkin'', utf16 ''-identical'', utf16 ''-c'', utf16 ''fix'', utf16 ''/a'']),
      (cleartool, [utf16 ''checkin'', utf16 ''-identical'', utf16 ''-c'', utf16 ''fix'', utf16 ''/b''])]
   \<and> snd (checkin_resources sample_os [utf16 ''/a''] (Some (utf16 ''fix'')) (Some False) []) =
     [(cleartool, [utf16 ''checkin'', utf16 ''-c'', utf16 ''fix'', utf16 ''/a''])]
   \<and> snd (checkin_resources sample_os [utf16 ''/a''] (Some (utf16 ''fix'')) None []) =
     [(cleartool, [utf16 ''checkin'', utf16 ''-c'', utf16 ''fix'', utf16 ''/a''])]"
proof -
  have v: "comment_value ''automated checkin'' (Some (utf16 ''fix'')) = utf16 ''fix''"
    by code_simp
  show ?thesis
    using checkin_resources_argument_vectors
            [of sample_os "[utf16 ''/a'', utf16 ''/b'']" "Some (utf16 ''fix'')" "Some True" "[]"]
          checkin_resources_argument_vectors
            [of sample_os "[utf16 ''/a'']" "Some (utf16 ''fix'')" "Some False" "[]"]
          checkin_resources_argument_vectors
            [of sample_os "[utf16 ''/a'']" "Some (utf16 ''fix'')" None "[]"]
    by (simp add: v)
qed

text \<open>
  Claim C9: for every \<open>undo_checkout\<close> request the argument vector of each path is
  \<open>uncheckout -rm <path>\<close> when \<open>keepChanges\<close> is absent or false, and
  \<open>uncheckout -keep <path>\<close> only when \<open>keepChanges\<close> is true.
\<close>

theorem undo_checkout_argument_vectors:
  "snd (undo_checkout os resourcePaths keepChanges log) =
     log @ map (\<lambda>path. (cleartool,
                  [utf16 ''uncheckout'',
                   if keepChanges = Some True then utf16 ''-keep'' else utf16 ''-rm'', path]))
             resourcePaths"
  by (simp add: undo_checkout_eq)

theorem undo_checkout_argument_vectors_witness:
  "snd (undo_checkout sample_os [utf16 ''/a''] None []) =
     [(cleartool, [utf16 ''uncheckout'', utf16 ''-rm'', utf16 ''/a''])]
   \<and> snd (undo_checkout sample_os [utf16 ''/a''] (Some False) []) =
     [(cleartool, [utf16 ''uncheckout'', utf16 ''-rm'', utf16 ''/a''])]
   \<and> snd (undo_checkout sample_os [utf16 ''/a''] (Some True) []) =
     [(cleartool, [utf16 ''uncheckout'', utf16 ''-keep'', utf16 ''/a''])]"
  using undo_checkout_argument_vectors [of sample_os "[utf16 ''/a'']" None "[]"]
        undo_checkout_argument_vectors [of sample_os "[utf16 ''/a'']" "Some False" "[]"]
        undo_checkout_argument_vectors [of sample_os "[utf16 ''/a'']" "Some True" "[]"]
  by simp

text \<open>Facts about the escaping of double quotes: the escaped text is longer by one code
  unit for each double quote, every double quote in it stands right after a backslash, and
  without the backslashes it is the comment without its backslashes.\<close>

lemma escape_quotes_Nil [simp]: "escape_quotes [] = []"
  by (simp add: escape_quotes_def)

lemma escape_quotes_Cons:
  "escape_quotes (c # s) = (if c = QUOTE then [BACKSLASH, QUOTE] else [c]) @ escape_quotes s"
  by (simp add: escape_quotes_def)

lemma escape_quotes_length:
  "length (escape_quotes s) = length s + length (filter (\<lambda>c. c = QUOTE) s)"
  by (induction s) (simp_all add: escape_quotes_Cons)

lemma escape_quotes_unescape:
  "filter (\<lambda>c. c \<noteq> BACKSLASH) (escape_quotes s) = filter (\<lambda>c. c \<noteq> BACKSLASH) s"
  by (induction s) (simp_all add: escape_quotes_Cons QUOTE_def BACKSLASH_def)

lemma escape_quotes_preceded:
  "i < length (escape_quotes s) \<Longrightarrow> escape_quotes s ! i = QUOTE \<Longrightarrow>
     0 < i \<and> escape_quotes s ! (i - 1) = BACKSLASH"
proof (induction s arbitrary: i)
  case Nil
  then show ?case by (simp add: escape_quotes_def)
next
  case (Cons c s)
  show ?case
  proof (cases "c = QUOTE")
    case True
    with Cons.prems have "i \<noteq> 0"
      by (cases i) (simp_all add: escape_quotes_Cons QUOTE_def BACKSLASH_def)
    show ?thesis
    proof (cases "i = 1")
      case True
      with \<open>c = QUOTE\<close> show ?thesis by (simp add: escape_quotes_Cons)
    next
      case False
      with \<open>i \<noteq> 0\<close> obtain j where j: "i = Suc (Suc j)" by (metis One_nat_def not0_implies_Suc)
      with Cons.prems \<open>c = QUOTE\<close> have "j < length (escape_quotes s)" "escape_quotes s ! j = QUOTE"
        by (simp_all add: escape_quotes_Cons)
      from Cons.IH [OF this] have "0 < j" "escape_quotes s ! (j - 1) = BACKSLASH" by simp_all
      with j \<open>c = QUOTE\<close> show ?thesis by (cases j) (simp_all add: escape_quotes_Cons)
    qed
  next
    case False
    with Cons.prems have "i \<noteq> 0"
      by (cases i) (simp_all add: escape_quotes_Cons)
    then obtain j where j: "i = Suc j" by (metis not0_implies_Suc)
    with Cons.prems False have "j < length (escape_quotes s)" "escape_quotes s ! j = QUOTE"
      by (simp_all add: escape_quotes_Cons)
    from Cons.IH [OF this] have "0 < j" "escape_quotes s ! (j - 1) = BACKSLASH" by simp_all
    with j False show ?thesis by (cases j) (simp_all add: escape_quotes_Cons)
  qed
qed

text \<open>
  Claim C8: for every \<open>checkout_resources\<close>, \<open>checkin_resources\<close> or \<open>add_resources\<close>
  request whose comment contains a double quote, the value of the \<open>-c\<close> flag in every
  argument vector is the comment with each double quote replaced by a backslash and a
  double quote.
\<close>

theorem comment_quotes_escaped:
  assumes "QUOTE \<in> set comment"
  shows "snd (checkout_resources os resourcePaths (Some comment) log) =
           log @ map (\<lambda>path. (cleartool,
                  [utf16 ''checkout'', utf16 ''-c'', escape_quotes comment, path])) resourcePaths
       \<and> snd (checkin_resources os resourcePaths (Some comment) checkinIdentical log) =
           log @ map (\<lambda>path. (cleartool,
                  [utf16 ''checkin''] @
                  (if checkinIdentical = Some True then [utf16 ''-identical''] else []) @
                  [utf16 ''-c'', escape_quotes comment, path])) resourcePaths
       \<and> snd (add_resources os resourcePaths (Some comment) log) =
           log @ map (\<lambda>path. (cleartool,
                  [utf16 ''mkelem'', utf16 ''-c'', escape_quotes comment, path])) resourcePaths"
proof -
  from assms have "comment \<noteq> []" by auto
  then have "comment_value fallback (Some comment) = escape_quotes comment" for fallback
    by (simp add: comment_value_def)
  then show ?thesis
    by (simp add: checkout_resources_eq checkin_resources_eq add_resources_eq)
qed

theorem comment_quotes_escaped_witness:
  "snd (checkout_resources sample_os [utf16 ''/a''] (Some (utf16 ''say '' @ [QUOTE] @ utf16 ''hi'' @ [QUOTE])) []) =
     [(cleartool, [utf16 ''checkout'', utf16 ''-c'',
         utf16 ''say '' @ [BACKSLASH, QUOTE] @ utf16 ''hi'' @ [BACKSLASH, QUOTE], utf16 ''/a''])]
   \<and> snd (checkin_resources sample_os [utf16 ''/a''] (Some (utf16 ''say '' @ [QUOTE] @ utf16 ''hi'' @ [QUOTE])) None []) =
     [(cleartool, [utf16 ''checkin'', utf16 ''-c'',
         utf16 ''say '' @ [BACKSLASH, QUOTE] @ utf16 ''hi'' @ [BACKSLASH, QUOTE], utf16 ''/a''])]
   \<and> snd (add_resources sample_os [utf16 ''/a''] (Some (utf16 ''say '' @ [QUOTE] @ utf16 ''hi'' @ [QUOTE])) []) =
     [(cleartool, [utf16 ''mkelem'', utf16 ''-c'',
         utf16 ''say '' @ [BACKSLASH, QUOTE] @ utf16 ''hi'' @ [BACKSLASH, QUOTE], utf16 ''/a''])]"
proof -
  let ?c = "utf16 ''say '' @ [QUOTE] @ utf16 ''hi'' @ [QUOTE]"
  have q: "QUOTE \<in> set ?c" by simp
  have e: "escape_quotes ?c = utf16 ''say '' @ [BACKSLASH, QUOTE] @ utf16 ''hi'' @ [BACKSLASH, QUOTE]"
    by code_simp
  show ?thesis
    using comment_quotes_escaped [OF q, of sample_os "[utf16 ''/a'']" "[]" None]
    unfolding e by simp
qed

lemma comment_value_nonempty: "fallback \<noteq> [] \<Longrightarrow> comment_value fallback comment \<noteq> []"
  by (simp add: comment_value_def escape_quotes_nonempty utf16_nonempty split: option.split)

text \<open>
  Claim C10: for every \<open>checkout_resources\<close>, \<open>checkin_resources\<close> or \<open>add_resources\<close>
  request whose comment is absent or the empty string, the value of the \<open>-c\<close> flag is
  \<open>automated checkout\<close>, \<open>automated checkin\<close> or \<open>automated add\<close> respectively; and for
  every comment whatever, the value of the \<open>-c\<close> flag of every process spawned is not the
  empty string.
\<close>

theorem default_comment_when_absent_or_empty:
  "((comment = None \<or> comment = Some []) \<longrightarrow>
      snd (checkout_resources os resourcePaths comment log) =
        log @ map (\<lambda>path. (cleartool,
               [utf16 ''checkout'', utf16 ''-c'', utf16 ''automated checkout'', path])) resourcePaths
    \<and> snd (checkin_resources os resourcePaths comment checkinIdentical log) =
        log @ map (\<lambda>path. (cleartool,
               [utf16 ''checkin''] @
               (if checkinIdentical = Some True then [utf16 ''-identical''] else []) @
               [utf16 ''-c'', utf16 ''automated checkin'', path])) resourcePaths
    \<and> snd (add_resources os resourcePaths comment log) =
        log @ map (\<lambda>path. (cleartool,
               [utf16 ''mkelem'', utf16 ''-c'', utf16 ''automated add'', path])) resourcePaths)
   \<and> list_all (\<lambda>call. \<exists>v. flag_value (utf16 ''-c'') (snd call) = Some v \<and> v \<noteq> [])
        (drop (length log) (snd (checkout_resources os resourcePaths comment log)))
   \<and> list_all (\<lambda>call. \<exists>v. flag_value (utf16 ''-c'') (snd call) = Some v \<and> v \<noteq> [])
        (drop (length log) (snd (checkin_resources os resourcePaths comment checkinIdentical log)))
   \<and> list_all (\<lambda>call. \<exists>v. flag_value (utf16 ''-c'') (snd call) = Some v \<and> v \<noteq> [])
        (drop (length log) (snd (add_resources os resourcePaths comment log)))"
proof -
  have absent: "comment = None \<or> comment = Some [] \<Longrightarrow> comment_value fallback comment = utf16 fallback"
    for fallback
    by (auto simp: comment_value_def)
  have a: "(comment = None \<or> comment = Some []) \<longrightarrow>
      snd (checkout_resources os resourcePaths comment log) =
        log @ map (\<lambda>path. (cleartool,
               [utf16 ''checkout'', utf16 ''-c'', utf16 ''automated checkout'', path])) resourcePaths
    \<and> snd (checkin_resources os resourcePaths comment checkinIdentical log) =
        log @ map (\<lambda>path. (cleartool,
               [utf16 ''checkin''] @
               (if checkinIdentical = Some True then [utf16 ''-identical''] else []) @
               [utf16 ''-c'', utf16 ''automated checkin'', path])) resourcePaths
    \<and> snd (add_resources os resourcePaths comment log) =
        log @ map (\<lambda>path. (cleartool,
               [utf16 ''mkelem'', utf16 ''-c'', utf16 ''automated add'', path])) resourcePaths"
    using absent by (simp add: checkout_resources_eq checkin_resources_eq add_resources_eq)
  have b: "list_all (\<lambda>call. \<exists>v. flag_value (utf16 ''-c'') (snd call) = Some v \<and> v \<noteq> [])
        (drop (length log) (snd (checkout_resources os resourcePaths comment log)))"
    by (simp add: checkout_resources_eq list_all_iff comment_value_nonempty utf16_def)
  have c: "list_all (\<lambda>call. \<exists>v. flag_value (utf16 ''-c'') (snd call) = Some v \<and> v \<noteq> [])
        (drop (length log) (snd (checkin_resources os resourcePaths comment checkinIdentical log)))"
    by (simp add: checkin_resources_eq list_all_iff comment_value_nonempty utf16_def)
  have d: "list_all (\<lambda>call. \<exists>v. flag_value (utf16 ''-c'') (snd call) = Some v \<and> v \<noteq> [])
        (drop (length log) (snd (add_resources os resourcePaths comment log)))"
    by (simp add: add_resources_eq list_all_iff comment_value_nonempty utf16_def)
  from a b c d show ?thesis by blast
qed

theorem default_comment_when_absent_or_empty_witness:
  "snd (checkout_resources sample_os [utf16 ''/a''] (Some []) []) =
     [(cleartool, [utf16 ''checkout'', utf16 ''-c'', utf16 ''automated checkout'', utf16 ''/a''])]
   \<and> snd (checkin_resources sample_os [utf16 ''/a''] (Some []) None []) =
     [(cleartool, [utf16 ''checkin'', utf16 ''-c'', utf16 ''automated checkin'', utf16 ''/a''])]
   \<and> snd (add_resources sample_os [utf16 ''/a''] (Some []) []) =
     [(cleartool, [utf16 ''mkelem'', utf16 ''-c'', utf16 ''automated add'', utf16 ''/a''])]"
  using default_comment_when_absent_or_empty [of "Some []" sample_os "[utf16 ''/a'']" "[]" None]
  by simp


section \<open>Activities\<close>

text \<open>
  Claim C6: \<open>create_or_set_ucm_activity\<close> with neither \<open>activityId\<close> nor
  \<open>activityHeadline\<close> spawns no process (the spawn log is unchanged) and returns the one
  text block that carries the error label of the operation and the message of the local
  validation error.
\<close>

theorem create_or_set_ucm_activity_requires_input:
  "create_or_set_ucm_activity os None None setActivity log =
     (Inr (Response [Text (utf16
        ''Error creating or setting activity: Either activityId or activityHeadline must be provided.'')]),
      log)"
  by (simp add: create_or_set_ucm_activity_eq truthy_string_def text_response_def utf16_def)

text \<open>Empty strings are falsy, so they count as not supplied.\<close>

lemma create_or_set_ucm_activity_empty_strings:
  "create_or_set_ucm_activity os (Some []) (Some []) setActivity log =
     create_or_set_ucm_activity os None None setActivity log"
  by (simp add: create_or_set_ucm_activity_eq truthy_string_def)

section \<open>The size of the registry\<close>

text \<open>
  Claim C5, as stated, fails on the number of registered operations: the registry does
  not have 21 entries.
\<close>

theorem registry_size_counterexample:
  "length tool_registry \<noteq> 21"
  by (simp add: tool_registry_def)

text \<open>
  Claim C5, amended: the registry declares exactly 16 operations, with pairwise different
  names, which are the operations a request can name: listing views, describing a
  resource, creating or setting an activity, checkout, undo-checkout, checkin, login,
  logout, adding and updating a view, adding resources, hijack and undo-hijack, rename,
  remove, and \<open>open_file\<close>, which spawns the same \<open>describe <path>\<close> as
  \<open>get_resource_status\<close>.
\<close>

theorem registry_operations:
  "length tool_registry = 16
   \<and> map tool_name tool_registry =
     [''get_clearcase_views'',
      ''get_resource_status'',
      ''create_or_set_ucm_activity'',
      ''checkout_resources'',
      ''undo_checkout'',
      ''checkin_resources'',
      ''login'',
      ''logout'',
      ''add_view'',
      ''update_view'',
      ''add_resources'',
      ''hijack_resources'',
      ''undo_hijack'',
      ''rename_resource'',
      ''remove_resource'',
      ''open_file'']
   \<and> distinct (map tool_name tool_registry)
   \<and> range operation = set (map tool_name tool_registry)
   \<and> snd (open_file os path log) = log @ [(cleartool, [utf16 ''describe'', path])]
   \<and> snd (get_resource_status os path log) = log @ [(cleartool, [utf16 ''describe'', path])]"
proof -
  have names: "map tool_name tool_registry =
     [''get_clearcase_views'',
      ''get_resource_status'',
      ''create_or_set_ucm_activity'',
      ''checkout_resources'',
      ''undo_checkout'',
      ''checkin_resources'',
      ''login'',
      ''logout'',
      ''add_view'',
      ''update_view'',
      ''add_resources'',
      ''hijack_resources'',
      ''undo_hijack'',
      ''rename_resource'',
      ''remove_resource'',
      ''open_file'']"
    by (simp add: tool_registry_def)
  have sub: "range operation \<subseteq> set (map tool_name tool_registry)"
  proof
    fix x assume "x \<in> range operation"
    then obtain r where "x = operation r" by auto
    then show "x \<in> set (map tool_name tool_registry)"
      unfolding names by (cases r) simp_all
  qed
  have sup: "set (map tool_name tool_registry) \<subseteq> range operation"
  proof -
    have "''get_clearcase_views'' \<in> range operation" using rangeI [of operation "Get_clearcase_views"] by simp
    moreover
    have "''get_resource_status'' \<in> range operation" using rangeI [of operation "Get_resource_status []"] by simp
    moreover
    have "''create_or_set_ucm_activity'' \<in> range operation" using rangeI [of operation "Create_or_set_ucm_activity None None False"] by simp
    moreover
    have "''checkout_resources'' \<in> range operation" using rangeI [of operation "Checkout_resources [] None"] by simp
    moreover
    have "''undo_checkout'' \<in> range operation" using rangeI [of operation "Undo_checkout [] None"] by simp
    moreover
    have "''checkin_resources'' \<in> range operation" using rangeI [of operation "Checkin_resources [] None None"] by simp
    moreover
    have "''login'' \<in> range operation" using rangeI [of operation "Login [] [] []"] by simp
    moreover
    have "''logout'' \<in> range operation" using rangeI [of operation "Logout"] by simp
    moreover
    have "''add_view'' \<in> range operation" using rangeI [of operation "Add_view []"] by simp
    moreover
    have "''update_view'' \<in> range operation" using rangeI [of operation "Update_view []"] by simp
    moreover
    have "''add_resources'' \<in> range operation" using rangeI [of operation "Add_resources [] None"] by simp
    moreover
    have "''hijack_resources'' \<in> range operation" using rangeI [of operation "Hijack_resources []"] by simp
    moreover
    have "''undo_hijack'' \<in> range operation" using rangeI [of operation "Undo_hijack []"] by simp
    moreover
    have "''rename_resource'' \<in> range operation" using rangeI [of operation "Rename_resource [] []"] by simp
    moreover
    have "''remove_resource'' \<in> range operation" using rangeI [of operation "Remove_resource []"] by simp
    moreover
    have "''open_file'' \<in> range operation" using rangeI [of operation "Open_file []"] by simp
    ultimately show ?thesis unfolding names by simp
  qed
  have calls:
    "snd (open_file os path log) = log @ [(cleartool, [utf16 ''describe'', path])]"
    "snd (get_resource_status os path log) = log @ [(cleartool, [utf16 ''describe'', path])]"
    by (simp_all add: open_file_def get_resource_status_def try_single)
  from sub sup have rng: "range operation = set (map tool_name tool_registry)"
    by (rule equalityI)
  have len: "length tool_registry = 16" and dis: "distinct (map tool_name tool_registry)"
    by (simp_all add: tool_registry_def)
  from len names dis rng calls show ?thesis
    by (simp only: simp_thms)
qed


section \<open>Calls of the execution adapter\<close>

lemma batch_statement:
  assumes h: "h = (batch_result label failed (processes os (length log) (map mk paths)),
                   log @ map mk paths)"
    and mk: "\<forall>path. fst (mk path) = cleartool \<and> last (snd (mk path)) = path"
  shows "\<exists>calls. snd h = log @ calls \<and>
     list_all (\<lambda>call. fst call = cleartool) calls \<and>
     map (\<lambda>call. last (snd call)) calls = paths \<and>
     ((\<forall>outcome \<in> set (processes os (length log) calls). exits_zero outcome) \<longrightarrow>
      (\<exists>l. Some label = Some l \<and>
         fst h = Inr (Response [Text (l @ [LF] @
           join [LF] (map trimmed_output (processes os (length log) calls)))]))) \<and>
     ((\<forall>outcome \<in> set (processes os (length log) calls). reaches_close outcome) \<and>
      (\<exists>outcome \<in> set (processes os (length log) calls). exits_nonzero outcome) \<longrightarrow>
      (\<exists>p. Runs p \<in> set (processes os (length log) calls) \<and>
           close_code p \<noteq> Some 0 \<and>
           (\<forall>q. Runs q \<in> set (processes os (length log) calls) \<and>
                close_code q \<noteq> Some 0 \<longrightarrow> close_time p \<le> close_time q) \<and>
           fst h = Inr (Response [Text (failed @ failure_text p)])))"
proof (intro exI [of _ "map mk paths"] conjI impI)
  show "snd h = log @ map mk paths" by (simp add: h)
  show "list_all (\<lambda>call. fst call = cleartool) (map mk paths)"
    using mk by (simp add: list_all_iff)
  show "map (\<lambda>call. last (snd call)) (map mk paths) = paths"
    using mk by (simp add: o_def)
next
  assume "\<forall>outcome \<in> set (processes os (length log) (map mk paths)). exits_zero outcome"
  from batch_result_success [OF this]
  show "\<exists>l. Some label = Some l \<and>
         fst h = Inr (Response [Text (l @ [LF] @
           join [LF] (map trimmed_output (processes os (length log) (map mk paths))))])"
    by (simp add: h)
next
  assume a: "(\<forall>outcome \<in> set (processes os (length log) (map mk paths)). reaches_close outcome) \<and>
      (\<exists>outcome \<in> set (processes os (length log) (map mk paths)). exits_nonzero outcome)"
  from batch_result_earliest_failure [OF conjunct1 [OF a] conjunct2 [OF a], of label failed]
  show "\<exists>p. Runs p \<in> set (processes os (length log) (map mk paths)) \<and>
           close_code p \<noteq> Some 0 \<and>
           (\<forall>q. Runs q \<in> set (processes os (length log) (map mk paths)) \<and>
                close_code q \<noteq> Some 0 \<longrightarrow> close_time p \<le> close_time q) \<and>
           fst h = Inr (Response [Text (failed @ failure_text p)])"
    by (simp add: h)
qed

text \<open>
  Claim C4, as stated, fails for \<open>create_or_set_ucm_activity\<close>, which is not a batch
  operation: with a headline and \<open>setActivity\<close> it calls the adapter twice
  (\<open>mkactivity\<close>, then \<open>setactivity\<close> with the first line of the output), and with
  neither input it does not call it at all.
\<close>

theorem create_activity_call_count_counterexample:
  "snd (call_tool sample_os
          (Create_or_set_ucm_activity None (Some (utf16 ''fix login'')) True) []) =
     [(cleartool, [utf16 ''mkactivity'', utf16 ''-headline'', utf16 ''fix login'']),
      (cleartool, [utf16 ''setactivity'', utf16 ''done fix login''])]
   \<and> length (snd (call_tool sample_os
          (Create_or_set_ucm_activity None (Some (utf16 ''fix login'')) True) [])) \<noteq> 1
   \<and> snd (call_tool sample_os (Create_or_set_ucm_activity None None True) []) = []"
  by code_simp

text \<open>
  Claim C4, amended: every handler spawns \<open>cleartool\<close> only. A handler other than
  \<open>create_or_set_ucm_activity\<close> calls the adapter exactly once per invocation, except the
  batch handlers, which call it exactly once per path as independent concurrent calls with
  the results collected in the order of the request:
  \<^item> the calls are those of the paths, in the order of the request, whatever the outcome of
    any of them, since all are made before a result is awaited;
  \<^item> when every process exits with status zero, the text is the label of the results
    followed by the trimmed outputs in the order of the request;
  \<^item> when every process reaches its \<open>close\<close> event and one fails, the failure reported is
    that of a failed process that closes no later than any other failed process, wherever
    its path stands in the request.

  \<open>create_or_set_ucm_activity\<close> calls the adapter once when an activity id is given, not
  at all when neither an id nor a headline is given, and otherwise once, or twice when
  \<open>setActivity\<close> is true and \<open>mkactivity\<close> exited with status zero.
\<close>

theorem adapter_calls_per_invocation:
  "\<exists>calls. snd (call_tool os req log) = log @ calls \<and>
     list_all (\<lambda>call. fst call = cleartool) calls \<and>
     (case req of
        Create_or_set_ucm_activity activityId activityHeadline setActivity \<Rightarrow>
          length calls =
            (case truthy_string activityId of
               Some ident \<Rightarrow> 1
             | None \<Rightarrow>
                 (case truthy_string activityHeadline of
                    None \<Rightarrow> 0
                  | Some headline \<Rightarrow>
                      if setActivity \<and>
                         exits_zero (os (length log) cleartool
                           [utf16 ''mkactivity'', utf16 ''-headline'', headline])
                      then 2 else 1))
      | _ \<Rightarrow>
          (case batch_paths req of
             None \<Rightarrow> length calls = 1
           | Some paths \<Rightarrow>
               map (\<lambda>call. last (snd call)) calls = paths \<and>
               ((\<forall>outcome \<in> set (processes os (length log) calls). exits_zero outcome) \<longrightarrow>
                (\<exists>label. results_label req = Some label \<and>
                   fst (call_tool os req log) =
                     Inr (Response [Text (label @ [LF] @
                       join [LF] (map trimmed_output (processes os (length log) calls)))]))) \<and>
               ((\<forall>outcome \<in> set (processes os (length log) calls). reaches_close outcome) \<and>
                (\<exists>outcome \<in> set (processes os (length log) calls). exits_nonzero outcome) \<longrightarrow>
                (\<exists>p. Runs p \<in> set (processes os (length log) calls) \<and>
                     close_code p \<noteq> Some 0 \<and>
                     (\<forall>q. Runs q \<in> set (processes os (length log) calls) \<and>
                          close_code q \<noteq> Some 0 \<longrightarrow> close_time p \<le> close_time q) \<and>
                     fst (call_tool os req log) =
                       Inr (Response [Text (error_label req @ failure_text p)])))))"
proof (cases req)
  case (Create_or_set_ucm_activity activityId activityHeadline setActivity)
  have zero: "exits_zero outcome \<longleftrightarrow> (\<exists>out. snd (executor outcome) = Inr out)" for outcome
    by (cases outcome) (simp_all add: on_close_failure_text)
  show ?thesis
    unfolding Create_or_set_ucm_activity call_tool.simps request.case
      create_or_set_ucm_activity_eq
    by (auto simp: zero split: option.split sum.split fault.split)
next
  case (Checkout_resources resourcePaths comment)
  show ?thesis
    unfolding Checkout_resources call_tool.simps request.case batch_paths.simps option.case
      results_label.simps error_label.simps
    by (rule batch_statement [OF checkout_resources_eq]) simp
next
  case (Undo_checkout resourcePaths keepChanges)
  show ?thesis
    unfolding Undo_checkout call_tool.simps request.case batch_paths.simps option.case
      results_label.simps error_label.simps
    by (rule batch_statement [OF undo_checkout_eq]) simp
next
  case (Checkin_resources resourcePaths comment checkinIdentical)
  show ?thesis
    unfolding Checkin_resources call_tool.simps request.case batch_paths.simps option.case
      results_label.simps error_label.simps
    by (rule batch_statement [OF checkin_resources_eq]) simp
next
  case (Add_resources resourcePaths comment)
  show ?thesis
    unfolding Add_resources call_tool.simps request.case batch_paths.simps option.case
      results_label.simps error_label.simps
    by (rule batch_statement [OF add_resources_eq]) simp
next
  case (Hijack_resources resourcePaths)
  show ?thesis
    unfolding Hijack_resources call_tool.simps request.case batch_paths.simps option.case
      results_label.simps error_label.simps
    by (rule batch_statement [OF hijack_resources_eq]) simp
next
  case (Undo_hijack resourcePaths)
  show ?thesis
    unfolding Undo_hijack call_tool.simps request.case batch_paths.simps option.case
      results_label.simps error_label.simps
    by (rule batch_statement [OF undo_hijack_eq]) simp
qed (simp_all add: single_handler_defs try_single)


theorem adapter_calls_per_invocation_witness:
  "map (\<lambda>call. last (snd call))
     (snd (call_tool sample_os (Hijack_resources [utf16 ''/a'', utf16 ''/b'']) [])) =
     [utf16 ''/a'', utf16 ''/b'']
   \<and> fst (call_tool sample_os (Hijack_resources [utf16 ''/a'', utf16 ''/b'']) []) =
     Inr (Response [Text (utf16 ''Hijack results:'' @ [LF] @ utf16 ''done /a'' @ [LF] @
                          utf16 ''done /b'')])
   \<and> map (\<lambda>call. last (snd call))
     (snd (call_tool racing_os (Hijack_resources [utf16 ''/slow'', utf16 ''/fast'']) [])) =
     [utf16 ''/slow'', utf16 ''/fast'']
   \<and> fst (call_tool racing_os (Hijack_resources [utf16 ''/slow'', utf16 ''/fast'']) []) =
     Inr (Response [Text (utf16 ''Error hijacking resources: cannot lock /fast'')])"
proof -
  let ?R = "Hijack_resources [utf16 ''/a'', utf16 ''/b'']"
  let ?calls = "snd (call_tool sample_os ?R [])"
  have general:
    "map (\<lambda>call. last (snd call)) ?calls = [utf16 ''/a'', utf16 ''/b''] \<and>
     ((\<forall>outcome \<in> set (processes sample_os 0 ?calls). exits_zero outcome) \<longrightarrow>
      fst (call_tool sample_os ?R []) =
        Inr (Response [Text (utf16 ''Hijack results:'' @ [LF] @
               join [LF] (map trimmed_output (processes sample_os 0 ?calls)))]))"
    using adapter_calls_per_invocation [of sample_os ?R "[]"] by auto
  have ok: "\<forall>outcome \<in> set (processes sample_os 0 ?calls). exits_zero outcome"
    by code_simp
  have shown: "utf16 ''Hijack results:'' @ [LF] @
      join [LF] (map trimmed_output (processes sample_os 0 ?calls)) =
      utf16 ''Hijack results:'' @ [LF] @ utf16 ''done /a'' @ [LF] @ utf16 ''done /b''"
    by code_simp
  from general ok shown have success:
    "map (\<lambda>call. last (snd call)) ?calls = [utf16 ''/a'', utf16 ''/b''] \<and>
     fst (call_tool sample_os ?R []) =
       Inr (Response [Text (utf16 ''Hijack results:'' @ [LF] @ utf16 ''done /a'' @ [LF] @
                            utf16 ''done /b'')])"
    by simp
  let ?Q = "Hijack_resources [utf16 ''/slow'', utf16 ''/fast'']"
  let ?race = "snd (call_tool racing_os ?Q [])"
  let ?slow = "\<lparr>stdout_data = [], stderr_data = [utf16 ''cannot lock '', utf16 ''/slow''],
                close_code = Some 1, close_time = 100\<rparr>"
  let ?fast = "\<lparr>stdout_data = [], stderr_data = [utf16 ''cannot lock '', utf16 ''/fast''],
                close_code = Some 1, close_time = 1\<rparr>"
  have outcomes: "processes racing_os 0 ?race = [Runs ?slow, Runs ?fast]"
    by code_simp
  have raced:
    "map (\<lambda>call. last (snd call)) ?race = [utf16 ''/slow'', utf16 ''/fast''] \<and>
     ((\<forall>outcome \<in> set (processes racing_os 0 ?race). reaches_close outcome) \<and>
      (\<exists>outcome \<in> set (processes racing_os 0 ?race). exits_nonzero outcome) \<longrightarrow>
      (\<exists>p. Runs p \<in> set (processes racing_os 0 ?race) \<and> close_code p \<noteq> Some 0 \<and>
           (\<forall>q. Runs q \<in> set (processes racing_os 0 ?race) \<and> close_code q \<noteq> Some 0
                \<longrightarrow> close_time p \<le> close_time q) \<and>
           fst (call_tool racing_os ?Q []) =
             Inr (Response [Text (error_label ?Q @ failure_text p)])))"
    using adapter_calls_per_invocation [of racing_os ?Q "[]"] by auto
  then obtain p where
    p: "p = ?slow \<or> p = ?fast"
       "\<forall>q. (q = ?slow \<or> q = ?fast) \<and> close_code q \<noteq> Some 0 \<longrightarrow> close_time p \<le> close_time q"
       "fst (call_tool racing_os ?Q []) = Inr (Response [Text (error_label ?Q @ failure_text p)])"
    unfolding outcomes by auto
  from p(2) have "(?fast = ?slow \<or> ?fast = ?fast) \<and> close_code ?fast \<noteq> Some 0
      \<longrightarrow> close_time p \<le> close_time ?fast"
    by (rule spec)
  then have "close_time p \<le> 1" by simp
  with p(1) have "p = ?fast" by auto
  moreover have "error_label ?Q @ failure_text ?fast =
      utf16 ''Error hijacking resources: cannot lock /fast''"
    by code_simp
  ultimately have "fst (call_tool racing_os ?Q []) =
      Inr (Response [Text (utf16 ''Error hijacking resources: cannot lock /fast'')])"
    using p(3) by simp
  with raced success show ?thesis by simp
qed

end
